theory Spec2Isabelle
  imports Complex_Main "HOL-Library.Log_Nat"
begin

section \<open>Data model\<close>

text \<open>
  Documents are records, collections are lists of documents in insertion order, and an
  ObjectId is the string that \<^verbatim>\<open>toString()\<close> gives for it. A JavaScript number is
  the rational that the double stands for; the arithmetic of the average rating rounds
  every result to the nearest double (\<open>fl\<close> below), and the counts and page numbers of
  pagination are integers, which are divided exactly. Dates are natural-number timestamps.

  The first four errors are the error classes of the application. \<open>StoreError\<close> is the
  error of the store when it rejects a document: \<^verbatim>\<open>Notification.create\<close> validates
  the document against the schema of the collection before it stores it. The controllers
  take that validation as their parameter \<open>valid\<close>; the schema of the repository is
  \<open>notificationSchema\<close> below. \<open>TypeError\<close> is the error of the runtime when a
  property of \<^verbatim>\<open>undefined\<close> is read. The other calls on the store (find, create and
  save of recipes and comments, update, delete) are taken to succeed.
\<close>

type_synonym objectId = string

datatype error =
    ValidationError string
  | NotFoundError string
  | AuthorizationError string
  | ConflictError string
  | StoreError
  | TypeError

text \<open>
  An entry of \<^verbatim>\<open>recipe.ratings\<close> (ratingSchema, recipe-schema.model.ts). The rating is a
  Number with \<^verbatim>\<open>min: 1\<close> and \<^verbatim>\<open>max: 5\<close>, a double that need not be whole.
\<close>

record rating_entry =
  userId :: objectId
  rating :: rat
  review :: "string option"
  createdAt :: nat

text \<open>The fields of recipeSchema that the controllers below read or write.\<close>

record recipe =
  recipe_id :: objectId
  title :: string
  description :: string
  author :: objectId
  ingredient_names :: "string list"
  cuisineType :: string
  mealType :: "string list"
  dietaryRestrictions :: "string list"
  tags :: "string list"
  difficulty :: string
  cookTime :: int
  views :: nat
  likes :: "objectId list"
  ratings :: "rating_entry list"
  isPublic :: bool
  isPublished :: bool

section \<open>Derived recipe properties (recipe-methods.model.ts)\<close>

text \<open>
  Double arithmetic. A double other than 0 is \<open>m * 2 ^ e\<close> with a whole number \<open>m\<close> of 53
  bits, \<open>2 ^ 52 \<le> \<bar>m\<bar> < 2 ^ 53\<close>. \<open>expo x\<close> is the exponent \<open>e\<close> of the doubles around
  \<open>x\<close>, found from the bit lengths of numerator and denominator, and \<open>fl x\<close> is the double
  nearest to \<open>x\<close>, a tie going to the even \<open>m\<close>: the result that \<^verbatim>\<open>+\<close>, \<^verbatim>\<open>*\<close> and
  \<^verbatim>\<open>/\<close> give for the exact value \<open>x\<close>. Overflow and subnormal numbers are left out: with
  ratings from 1 to 5, as ratingSchema asks, the values computed here lie between 1 / 10
  and five times the length of the list.
\<close>

definition expo :: "rat \<Rightarrow> int" where
  "expo x = (let (p, q) = quotient_of \<bar>x\<bar>; e = bitlen p - bitlen q - 53
             in if \<bar>x\<bar> < 2 powi (e + 53) then e else e + 1)"

definition round_even :: "rat \<Rightarrow> int" where
  "round_even y = (let n = \<lfloor>y\<rfloor>
                   in if y - of_int n < 1 / 2 then n
                      else if 1 / 2 < y - of_int n then n + 1
                      else if even n then n else n + 1)"

definition fl :: "rat \<Rightarrow> rat" where
  "fl x = (if x = 0 then 0 else of_int (round_even (x / 2 powi expo x)) * 2 powi expo x)"

text \<open>\<^verbatim>\<open>Math.round\<close>: the nearest integer, a tie going up; it is exact on a double.\<close>

definition Math_round :: "rat \<Rightarrow> int" where
  "Math_round x = \<lfloor>x + 1 / 2\<rfloor>"

text \<open>
  \<^verbatim>\<open>
  recipeSchema.virtual('averageRating').get(function() {
    if (this.ratings.length === 0) return 0;
    const sum = this.ratings.reduce((acc, rating) => acc + rating.rating, 0);
    return Math.round((sum / this.ratings.length) * 10) / 10;
  });
  \<close>
  Each of the additions of \<^verbatim>\<open>reduce\<close>, the division by the length, the product with 10
  and the division by 10 gives a double.
\<close>

definition averageRating :: "recipe \<Rightarrow> rat" where
  "averageRating r =
     (if length (ratings r) = 0 then 0
      else let sum = foldl (\<lambda>acc x. fl (acc + rating x)) 0 (ratings r)
           in fl (of_int (Math_round (fl (fl (sum / of_nat (length (ratings r))) * 10))) / 10))"

definition ratingsCount :: "recipe \<Rightarrow> nat" where
  "ratingsCount r = length (ratings r)"

definition likesCount :: "recipe \<Rightarrow> nat" where
  "likesCount r = length (likes r)"

section \<open>The data store\<close>

text \<open>
  A comment (comment.model.ts). \<^verbatim>\<open>parentComment\<close> is \<open>None\<close> for a root comment.
\<close>

record comment =
  comment_id :: objectId
  content :: string
  comment_author :: objectId
  comment_recipe :: objectId
  parentComment :: "objectId option"
  comment_likes :: "objectId list"
  isEdited :: bool
  editedAt :: "nat option"

text \<open>
  The social fields of a user (user.model.ts). \<^verbatim>\<open>followersCount\<close> is a virtual of the
  schema, the length of \<^verbatim>\<open>followers\<close>, and not a stored path.
\<close>

record user =
  user_id :: objectId
  username :: string
  following :: "objectId list"
  followers :: "objectId list"
  favoriteRecipes :: "objectId list"

text \<open>
  A notification as the controllers hand it to \<^verbatim>\<open>Notification.create\<close>. \<open>ntitle\<close> is
  the path \<^verbatim>\<open>title\<close> of notificationSchema; the documents of the controllers have none.
\<close>

record notification =
  recipient :: objectId
  sender :: objectId
  ntype :: string
  ntitle :: "string option"
  message :: string
  relatedRecipe :: "objectId option"
  relatedComment :: "objectId option"

record db =
  users :: "user list"
  recipes :: "recipe list"
  comments :: "comment list"
  notifications :: "notification list"

subsection \<open>Array and collection primitives\<close>

text \<open>\<^verbatim>\<open>Array.prototype.findIndex\<close>; \<open>None\<close> stands for the result -1.\<close>

fun findIndex :: "('a \<Rightarrow> bool) \<Rightarrow> 'a list \<Rightarrow> nat option" where
  "findIndex P [] = None"
| "findIndex P (x # xs) = (if P x then Some 0 else map_option Suc (findIndex P xs))"

text \<open>\<^verbatim>\<open>xs.splice(i, 1)\<close>: the list without its element at index \<open>i\<close>.\<close>

definition splice1 :: "nat \<Rightarrow> 'a list \<Rightarrow> 'a list" where
  "splice1 i xs = take i xs @ drop (Suc i) xs"

text \<open>An update of the first document that matches (save, findByIdAndUpdate).\<close>

fun updateFirst :: "('a \<Rightarrow> bool) \<Rightarrow> ('a \<Rightarrow> 'a) \<Rightarrow> 'a list \<Rightarrow> 'a list" where
  "updateFirst P f [] = []"
| "updateFirst P f (x # xs) = (if P x then f x # xs else x # updateFirst P f xs)"

text \<open>The removal of the first document that matches (findByIdAndDelete).\<close>

fun deleteFirst :: "('a \<Rightarrow> bool) \<Rightarrow> 'a list \<Rightarrow> 'a list" where
  "deleteFirst P [] = []"
| "deleteFirst P (x # xs) = (if P x then xs else x # deleteFirst P xs)"

text \<open>\<^verbatim>\<open>deleteMany(filter)\<close>: every matching document goes.\<close>

definition deleteMany :: "('a \<Rightarrow> bool) \<Rightarrow> 'a list \<Rightarrow> 'a list" where
  "deleteMany P xs = filter (\<lambda>x. \<not> P x) xs"

text \<open>\<^verbatim>\<open>$addToSet\<close> and \<^verbatim>\<open>$pull\<close> on an array field.\<close>

definition addToSet :: "'a \<Rightarrow> 'a list \<Rightarrow> 'a list" where
  "addToSet x xs = (if x \<in> set xs then xs else xs @ [x])"

definition pull :: "'a \<Rightarrow> 'a list \<Rightarrow> 'a list" where
  "pull x xs = filter (\<lambda>y. y \<noteq> x) xs"

text \<open>\<^verbatim>\<open>s.trim()\<close> (ASCII white space) and \<^verbatim>\<open>xs.join(sep)\<close>.\<close>

definition isSpace :: "char \<Rightarrow> bool" where
  "isSpace c = (c \<in> set [CHR '' '', CHR 0x09, CHR 0x0A, CHR 0x0B, CHR 0x0C, CHR 0x0D])"

definition trim :: "string \<Rightarrow> string" where
  "trim x = rev (dropWhile isSpace (rev (dropWhile isSpace x)))"

fun join :: "string \<Rightarrow> string list \<Rightarrow> string" where
  "join sep [] = []"
| "join sep [x] = x"
| "join sep (x # y # ys) = x @ sep @ join sep (y # ys)"

definition Recipe_findById :: "db \<Rightarrow> objectId \<Rightarrow> recipe option" where
  "Recipe_findById s rid = find (\<lambda>r. recipe_id r = rid) (recipes s)"

definition Comment_findById :: "db \<Rightarrow> objectId \<Rightarrow> comment option" where
  "Comment_findById s cid = find (\<lambda>c. comment_id c = cid) (comments s)"

definition User_findById :: "db \<Rightarrow> objectId \<Rightarrow> user option" where
  "User_findById s uid = find (\<lambda>u. user_id u = uid) (users s)"

text \<open>\<^verbatim>\<open>recipe.save()\<close> writes the document back under its id.\<close>

definition Recipe_save :: "recipe \<Rightarrow> db \<Rightarrow> db" where
  "Recipe_save r s =
     s\<lparr>recipes := updateFirst (\<lambda>x. recipe_id x = recipe_id r) (\<lambda>_. r) (recipes s)\<rparr>"

definition Comment_save :: "comment \<Rightarrow> db \<Rightarrow> db" where
  "Comment_save c s =
     s\<lparr>comments := updateFirst (\<lambda>x. comment_id x = comment_id c) (\<lambda>_. c) (comments s)\<rparr>"

definition Notification_create ::
  "(notification \<Rightarrow> bool) \<Rightarrow> notification \<Rightarrow> db \<Rightarrow> error + db" where
  "Notification_create valid n s =
     (if valid n then Inr (s\<lparr>notifications := notifications s @ [n]\<rparr>) else Inl StoreError)"

text \<open>
  The validation of notificationSchema (notification.model.ts):
  \<^verbatim>\<open>
  type:    { type: String, required: [true, ...],
             enum: ['recipe_like', 'recipe_comment', 'recipe_rating', 'user_follow',
                    'recipe_published', 'comment_reply'] },
  title:   { type: String, required: [true, ...], trim: true, maxlength: [100, ...] },
  message: { type: String, required: [true, ...], trim: true, maxlength: [500, ...] },
  \<close>
  A required string is present and not empty. Recipient and sender are required too; every
  document here has them.
\<close>

definition notificationSchema :: "notification \<Rightarrow> bool" where
  "notificationSchema n =
     (ntype n \<in> set [''recipe_like'', ''recipe_comment'', ''recipe_rating'', ''user_follow'',
                       ''recipe_published'', ''comment_reply''] \<and>
      (case ntitle n of
         None \<Rightarrow> False
       | Some t \<Rightarrow> trim t \<noteq> [] \<and> length (trim t) \<le> 100) \<and>
      trim (message n) \<noteq> [] \<and> length (trim (message n)) \<le> 500)"

section \<open>Recipe engagement (recipe-engagement.controller.ts)\<close>

record rate_response =
  resp_averageRating :: rat
  resp_totalRatings :: nat

text \<open>
  \<^verbatim>\<open>
  if (!rating || rating < 1 || rating > 5) throw new ValidationError(...);
  const recipe = await Recipe.findById(recipeId);
  if (!recipe) throw new NotFoundError('Recipe not found');
  const existingRatingIndex = recipe.ratings.findIndex(r => r.userId.toString() === userId);
  if (existingRatingIndex > -1) {
    recipe.ratings[existingRatingIndex].rating = rating;
    recipe.ratings[existingRatingIndex].createdAt = new Date();
  } else {
    recipe.ratings.push({ userId, rating, createdAt: new Date() });
    if (recipe.author.toString() !== userId) await Notification.create({...});
  }
  await recipe.save();
  \<close>
  The rating is \<open>None\<close> when the body has none; \<^verbatim>\<open>!rating\<close> holds then and for 0.
  ratingSchema is declared with \<^verbatim>\<open>timestamps: true\<close>, which makes \<^verbatim>\<open>createdAt\<close> of a
  stored entry immutable: the assignment to it in the first branch is dropped, and the
  entry keeps the time of its creation. The entry that the second branch pushes is new and
  takes the time it is given.
\<close>

definition rateRecipe ::
  "(notification \<Rightarrow> bool) \<Rightarrow> db \<Rightarrow> objectId \<Rightarrow> objectId \<Rightarrow> rat option \<Rightarrow> nat
     \<Rightarrow> (error + rate_response) \<times> db" where
  "rateRecipe valid s uid recipeId v now =
     (case v of
        None \<Rightarrow> (Inl (ValidationError ''Rating must be between 1 and 5''), s)
      | Some x \<Rightarrow>
          if x = 0 \<or> x < 1 \<or> x > 5
          then (Inl (ValidationError ''Rating must be between 1 and 5''), s)
          else (case Recipe_findById s recipeId of
             None \<Rightarrow> (Inl (NotFoundError ''Recipe not found''), s)
           | Some r \<Rightarrow>
               (case findIndex (\<lambda>e. userId e = uid) (ratings r) of
                  Some i \<Rightarrow>
                    let r' = r\<lparr>ratings := (ratings r)[i := (ratings r ! i)\<lparr>rating := x\<rparr>]\<rparr>
                    in (Inr \<lparr>resp_averageRating = averageRating r',
                             resp_totalRatings = length (ratings r')\<rparr>,
                        Recipe_save r' s)
                | None \<Rightarrow>
                    let r' = r\<lparr>ratings := ratings r @
                               [\<lparr>userId = uid, rating = x, review = None, createdAt = now\<rparr>]\<rparr>
                    in (case (if author r \<noteq> uid
                              then Notification_create valid
                                     \<lparr>recipient = author r, sender = uid, ntype = ''rating'',
                                      ntitle = None,
                                      message = ''rated your recipe '' @ [CHR 0x22] @ title r
                                                @ [CHR 0x22],
                                      relatedRecipe = Some recipeId, relatedComment = None\<rparr> s
                              else Inr s) of
                          Inl e \<Rightarrow> (Inl e, s)
                        | Inr s1 \<Rightarrow>
                            (Inr \<lparr>resp_averageRating = averageRating r',
                                  resp_totalRatings = length (ratings r')\<rparr>,
                             Recipe_save r' s1)))))"

record like_response =
  resp_isLiked :: bool
  resp_likesCount :: nat

text \<open>
  \<^verbatim>\<open>
  const likedIndex = recipe.likes.findIndex(id => id.toString() === userId);
  if (likedIndex > -1) {
    recipe.likes.splice(likedIndex, 1);
  } else {
    recipe.likes.push(userId);
    if (recipe.author.toString() !== userId) await Notification.create({...});
  }
  await recipe.save();
  \<close>
\<close>

definition toggleLikeRecipe ::
  "(notification \<Rightarrow> bool) \<Rightarrow> db \<Rightarrow> objectId \<Rightarrow> objectId
     \<Rightarrow> (error + like_response) \<times> db" where
  "toggleLikeRecipe valid s uid recipeId =
     (case Recipe_findById s recipeId of
        None \<Rightarrow> (Inl (NotFoundError ''Recipe not found''), s)
      | Some r \<Rightarrow>
          (case findIndex (\<lambda>x. x = uid) (likes r) of
             Some likedIndex \<Rightarrow>
               let r' = r\<lparr>likes := splice1 likedIndex (likes r)\<rparr>
               in (Inr \<lparr>resp_isLiked = False, resp_likesCount = length (likes r')\<rparr>,
                   Recipe_save r' s)
           | None \<Rightarrow>
               let r' = r\<lparr>likes := likes r @ [uid]\<rparr>
               in (case (if author r \<noteq> uid
                         then Notification_create valid
                                \<lparr>recipient = author r, sender = uid, ntype = ''like'',
                                 ntitle = None,
                                 message = ''liked your recipe '' @ [CHR 0x22] @ title r
                                           @ [CHR 0x22],
                                 relatedRecipe = Some recipeId, relatedComment = None\<rparr> s
                         else Inr s) of
                     Inl e \<Rightarrow> (Inl e, s)
                   | Inr s1 \<Rightarrow>
                       (Inr \<lparr>resp_isLiked = True, resp_likesCount = length (likes r')\<rparr>,
                        Recipe_save r' s1))))"

section \<open>Comments (comment-crud.controller.ts, comment-engagement.controller.ts)\<close>

text \<open>
  \<^verbatim>\<open>
  const recipe = await Recipe.findById(recipeId);
  if (!recipe) throw new NotFoundError('Recipe not found');
  if (parentComment) {
    const parent = await Comment.findById(parentComment);
    if (!parent || parent.recipe.toString() !== recipeId)
      throw new ValidationError('Invalid parent comment');
  }
  const comment = await Comment.create({ content, author: userId, recipe: recipeId,
                                         parentComment: parentComment || undefined });
  await comment.populate('author', 'username firstName lastName profilePicture');
  if (recipe.author.toString() !== userId) await Notification.create({... type: 'comment' ...});
  if (parentComment) {
    const parentCommentDoc = await Comment.findById(parentComment);
    if (parentCommentDoc && parentCommentDoc.author.toString() !== userId)
      await Notification.create({... type: 'reply' ...});
  }
  res.status(201).json({ status: 'success', ..., data: { comment } });
  \<close>
  A missing and an empty \<^verbatim>\<open>parentComment\<close> are both falsy. \<open>newId\<close> is the id the
  store gives the new comment.

  When the author is a user of the store, \<^verbatim>\<open>populate\<close> gives the comment a user
  document with the four selected paths only, and the response serialises it with the
  virtuals of userSchema
  (\<^verbatim>\<open>toJSON: { virtuals: true }\<close>), among them
  \<^verbatim>\<open>
  userSchema.virtual('followingCount').get(function() { return this.following.length; });
  \<close>
  \<^verbatim>\<open>following\<close> was not selected, so the getter reads \<^verbatim>\<open>length\<close> of
  \<^verbatim>\<open>undefined\<close> and the response raises a TypeError, after the comment and the
  notifications are stored. When no user has the id, \<^verbatim>\<open>author\<close> is populated with
  \<^verbatim>\<open>null\<close> and the response is sent.
\<close>

definition truthy :: "string option \<Rightarrow> string option" where
  "truthy v = (case v of None \<Rightarrow> None | Some x \<Rightarrow> if x = [] then None else Some x)"

definition addComment ::
  "(notification \<Rightarrow> bool) \<Rightarrow> db \<Rightarrow> objectId \<Rightarrow> objectId \<Rightarrow> string \<Rightarrow> objectId option
     \<Rightarrow> objectId \<Rightarrow> (error + comment) \<times> db" where
  "addComment valid s uid recipeId text parent newId =
     (case Recipe_findById s recipeId of
        None \<Rightarrow> (Inl (NotFoundError ''Recipe not found''), s)
      | Some r \<Rightarrow>
          if (case truthy parent of
                None \<Rightarrow> False
              | Some pid \<Rightarrow>
                  (case Comment_findById s pid of
                     None \<Rightarrow> True
                   | Some p \<Rightarrow> comment_recipe p \<noteq> recipeId))
          then (Inl (ValidationError ''Invalid parent comment''), s)
          else
            let c = \<lparr>comment_id = newId, content = text, comment_author = uid,
                     comment_recipe = recipeId, parentComment = truthy parent,
                     comment_likes = [], isEdited = False, editedAt = None\<rparr>;
                s1 = s\<lparr>comments := comments s @ [c]\<rparr>
            in (case (if author r \<noteq> uid
                      then Notification_create valid
                             \<lparr>recipient = author r, sender = uid, ntype = ''comment'',
                              ntitle = None,
                              message = ''commented on your recipe '' @ [CHR 0x22] @ title r
                                        @ [CHR 0x22],
                              relatedRecipe = Some recipeId, relatedComment = Some newId\<rparr> s1
                      else Inr s1) of
                  Inl e \<Rightarrow> (Inl e, s1)
                | Inr s2 \<Rightarrow>
                    (case (case truthy parent of
                             None \<Rightarrow> Inr s2
                           | Some pid \<Rightarrow>
                               (case Comment_findById s2 pid of
                                  None \<Rightarrow> Inr s2
                                | Some p \<Rightarrow>
                                    if comment_author p \<noteq> uid
                                    then Notification_create valid
                                           \<lparr>recipient = comment_author p, sender = uid,
                                            ntype = ''reply'',
                                            ntitle = None,
                                            message = ''replied to your comment'',
                                            relatedRecipe = Some recipeId,
                                            relatedComment = Some newId\<rparr> s2
                                    else Inr s2)) of
                       Inl e \<Rightarrow> (Inl e, s2)
                     | Inr s3 \<Rightarrow>
                         (case User_findById s3 uid of
                            None \<Rightarrow> (Inr c, s3)
                          | Some populated \<Rightarrow> (Inl TypeError, s3)))))"

text \<open>
  \<^verbatim>\<open>
  const comment = await Comment.findById(commentId);
  if (!comment) throw new NotFoundError('Comment not found');
  if (comment.author.toString() !== userId) throw new AuthorizationError(...);
  await Comment.deleteMany({ parentComment: commentId });
  await Comment.findByIdAndDelete(commentId);
  \<close>
\<close>

definition deleteComment :: "db \<Rightarrow> objectId \<Rightarrow> objectId \<Rightarrow> (error + string) \<times> db" where
  "deleteComment s uid commentId =
     (case Comment_findById s commentId of
        None \<Rightarrow> (Inl (NotFoundError ''Comment not found''), s)
      | Some c \<Rightarrow>
          if comment_author c \<noteq> uid
          then (Inl (AuthorizationError ''You can only delete your own comments''), s)
          else
            let s1 = s\<lparr>comments := deleteMany (\<lambda>x. parentComment x = Some commentId) (comments s)\<rparr>;
                s2 = s1\<lparr>comments := deleteFirst (\<lambda>x. comment_id x = commentId) (comments s1)\<rparr>
            in (Inr ''Comment deleted successfully'', s2))"

text \<open>\<^verbatim>\<open>Comment.find({ parentComment: commentId })\<close> (findReplies, getCommentReplies).\<close>

definition findReplies :: "db \<Rightarrow> objectId \<Rightarrow> comment list" where
  "findReplies s commentId = filter (\<lambda>c. parentComment c = Some commentId) (comments s)"

text \<open>
  \<^verbatim>\<open>
  if (comment.likes.includes(userId)) throw new ValidationError(...);
  comment.likes.push(userId);
  await comment.save();
  if (comment.author.toString() !== userId) await Notification.create({...});
  \<close>
\<close>

definition likeComment ::
  "(notification \<Rightarrow> bool) \<Rightarrow> db \<Rightarrow> objectId \<Rightarrow> objectId \<Rightarrow> (error + nat) \<times> db" where
  "likeComment valid s uid commentId =
     (case Comment_findById s commentId of
        None \<Rightarrow> (Inl (NotFoundError ''Comment not found''), s)
      | Some c \<Rightarrow>
          if uid \<in> set (comment_likes c)
          then (Inl (ValidationError ''You have already liked this comment''), s)
          else
            let c' = c\<lparr>comment_likes := comment_likes c @ [uid]\<rparr>;
                s1 = Comment_save c' s
            in (case (if comment_author c \<noteq> uid
                      then Notification_create valid
                             \<lparr>recipient = comment_author c, sender = uid, ntype = ''like'',
                              ntitle = None,
                              message = ''liked your comment'',
                              relatedRecipe = None, relatedComment = Some commentId\<rparr> s1
                      else Inr s1) of
                  Inl e \<Rightarrow> (Inl e, s1)
                | Inr s2 \<Rightarrow> (Inr (length (comment_likes c')), s2)))"

definition unlikeComment :: "db \<Rightarrow> objectId \<Rightarrow> objectId \<Rightarrow> (error + nat) \<times> db" where
  "unlikeComment s uid commentId =
     (case Comment_findById s commentId of
        None \<Rightarrow> (Inl (NotFoundError ''Comment not found''), s)
      | Some c \<Rightarrow>
          if uid \<notin> set (comment_likes c)
          then (Inl (ValidationError ''You have not liked this comment''), s)
          else
            let c' = c\<lparr>comment_likes := filter (\<lambda>x. x \<noteq> uid) (comment_likes c)\<rparr>
            in (Inr (length (comment_likes c')), Comment_save c' s))"

text \<open>
  \<^verbatim>\<open>
  const isLiked = comment.likes.includes(userId);
  if (isLiked) {
    comment.likes = comment.likes.filter(id => !id.equals(userId));
  } else {
    comment.likes.push(userId);
    if (comment.author.toString() !== userId) await Notification.create({...});
  }
  await comment.save();
  \<close>
\<close>

definition toggleCommentLike ::
  "(notification \<Rightarrow> bool) \<Rightarrow> db \<Rightarrow> objectId \<Rightarrow> objectId
     \<Rightarrow> (error + like_response) \<times> db" where
  "toggleCommentLike valid s uid commentId =
     (case Comment_findById s commentId of
        None \<Rightarrow> (Inl (NotFoundError ''Comment not found''), s)
      | Some c \<Rightarrow>
          if uid \<in> set (comment_likes c)
          then
            let c' = c\<lparr>comment_likes := filter (\<lambda>x. x \<noteq> uid) (comment_likes c)\<rparr>
            in (Inr \<lparr>resp_isLiked = False, resp_likesCount = length (comment_likes c')\<rparr>,
                Comment_save c' s)
          else
            let c' = c\<lparr>comment_likes := comment_likes c @ [uid]\<rparr>
            in (case (if comment_author c \<noteq> uid
                      then Notification_create valid
                             \<lparr>recipient = comment_author c, sender = uid, ntype = ''like'',
                              ntitle = None,
                              message = ''liked your comment'',
                              relatedRecipe = None, relatedComment = Some commentId\<rparr> s
                      else Inr s) of
                  Inl e \<Rightarrow> (Inl e, s)
                | Inr s1 \<Rightarrow>
                    (Inr \<lparr>resp_isLiked = True, resp_likesCount = length (comment_likes c')\<rparr>,
                     Comment_save c' s1)))"

section \<open>The social graph (followUser, unfollowUser)\<close>

text \<open>
  \<^verbatim>\<open>
  if (currentUserId === userId) throw new ValidationError('You cannot follow yourself');
  const targetUser = await User.findById(userId);
  if (!targetUser) throw new NotFoundError('User not found');
  const currentUser = await User.findById(currentUserId);
  if (!currentUser) throw new NotFoundError('Current user not found');
  if (currentUser.following.some(id => id.toString() === userId))
    throw new ValidationError('You are already following this user');
  await User.findByIdAndUpdate(currentUserId, { $addToSet: { following: userId } });
  await User.findByIdAndUpdate(userId, { $addToSet: { followers: currentUserId },
                                         $inc: { followersCount: 1 } });
  await Notification.create({ recipient: userId, sender: currentUserId, type: 'follow', ... });
  \<close>
  \<^verbatim>\<open>followersCount\<close> is no stored path of the user schema, so the \<^verbatim>\<open>$inc\<close> has no
  field to write in the model. A notification that the store rejects leaves the two
  updates in place.
\<close>

definition followUser ::
  "(notification \<Rightarrow> bool) \<Rightarrow> db \<Rightarrow> objectId \<Rightarrow> objectId \<Rightarrow> (error + string) \<times> db" where
  "followUser valid s currentUserId targetId =
     (if currentUserId = targetId
      then (Inl (ValidationError ''You cannot follow yourself''), s)
      else case User_findById s targetId of
        None \<Rightarrow> (Inl (NotFoundError ''User not found''), s)
      | Some targetUser \<Rightarrow>
          (case User_findById s currentUserId of
             None \<Rightarrow> (Inl (NotFoundError ''Current user not found''), s)
           | Some currentUser \<Rightarrow>
               if targetId \<in> set (following currentUser)
               then (Inl (ValidationError ''You are already following this user''), s)
               else
                 let s1 = s\<lparr>users := updateFirst (\<lambda>u. user_id u = currentUserId)
                            (\<lambda>u. u\<lparr>following := addToSet targetId (following u)\<rparr>) (users s)\<rparr>;
                     s2 = s1\<lparr>users := updateFirst (\<lambda>u. user_id u = targetId)
                            (\<lambda>u. u\<lparr>followers := addToSet currentUserId (followers u)\<rparr>)
                            (users s1)\<rparr>
                 in (case Notification_create valid
                            \<lparr>recipient = targetId, sender = currentUserId, ntype = ''follow'',
                             ntitle = None,
                             message = username currentUser @ '' started following you'',
                             relatedRecipe = None, relatedComment = None\<rparr> s2 of
                       Inl e \<Rightarrow> (Inl e, s2)
                     | Inr s3 \<Rightarrow> (Inr (''You are now following '' @ username targetUser), s3))))"

definition unfollowUser :: "db \<Rightarrow> objectId \<Rightarrow> objectId \<Rightarrow> (error + string) \<times> db" where
  "unfollowUser s currentUserId targetId =
     (if currentUserId = targetId
      then (Inl (ValidationError ''You cannot unfollow yourself''), s)
      else case User_findById s targetId of
        None \<Rightarrow> (Inl (NotFoundError ''User not found''), s)
      | Some targetUser \<Rightarrow>
          (case User_findById s currentUserId of
             None \<Rightarrow> (Inl (NotFoundError ''Current user not found''), s)
           | Some currentUser \<Rightarrow>
               if targetId \<notin> set (following currentUser)
               then (Inl (ValidationError ''You are not following this user''), s)
               else
                 let s1 = s\<lparr>users := updateFirst (\<lambda>u. user_id u = currentUserId)
                            (\<lambda>u. u\<lparr>following := pull targetId (following u)\<rparr>) (users s)\<rparr>;
                     s2 = s1\<lparr>users := updateFirst (\<lambda>u. user_id u = targetId)
                            (\<lambda>u. u\<lparr>followers := pull currentUserId (followers u)\<rparr>)
                            (users s1)\<rparr>
                 in (Inr (''You have unfollowed '' @ username targetUser), s2)))"

section \<open>Recipe deletion (recipe-crud.controller.ts)\<close>

text \<open>
  \<^verbatim>\<open>
  const recipe = await Recipe.findById(recipeId);
  if (!recipe) throw new NotFoundError('Recipe not found');
  if (recipe.author.toString() !== userId) throw new AuthorizationError(...);
  await Comment.deleteMany({ recipe: recipeId });
  await Recipe.findByIdAndDelete(recipeId);
  await User.updateMany({ favoriteRecipes: recipeId }, { $pull: { favoriteRecipes: recipeId } });
  \<close>
\<close>

definition deleteRecipe :: "db \<Rightarrow> objectId \<Rightarrow> objectId \<Rightarrow> (error + string) \<times> db" where
  "deleteRecipe s uid recipeId =
     (case Recipe_findById s recipeId of
        None \<Rightarrow> (Inl (NotFoundError ''Recipe not found''), s)
      | Some r \<Rightarrow>
          if author r \<noteq> uid
          then (Inl (AuthorizationError ''You can only delete your own recipes''), s)
          else
            let s1 = s\<lparr>comments := deleteMany (\<lambda>c. comment_recipe c = recipeId) (comments s)\<rparr>;
                s2 = s1\<lparr>recipes := deleteFirst (\<lambda>x. recipe_id x = recipeId) (recipes s1)\<rparr>;
                s3 = s2\<lparr>users := map (\<lambda>u. if recipeId \<in> set (favoriteRecipes u)
                                            then u\<lparr>favoriteRecipes := pull recipeId (favoriteRecipes u)\<rparr>
                                            else u) (users s2)\<rparr>
            in (Inr ''Recipe deleted successfully'', s3))"

section \<open>Discovery (recipe-search.controller.ts, recipe-category.controller.ts)\<close>

text \<open>
  The result of \<^verbatim>\<open>parseInt\<close>: a whole number or NaN.
\<close>

datatype jsint = NaN | Num int

text \<open>
  What the controllers use and the repository does not define: \<^verbatim>\<open>parseInt\<close>, the
  case-insensitive regular-expression match of a pattern against a text, and the cursor
  of the store, which sorts the matching documents and applies skip and limit.
\<close>

record env =
  parseInt :: "string \<Rightarrow> jsint"
  regexTest :: "string \<Rightarrow> string \<Rightarrow> bool"
  dbPage :: "string \<times> int \<times> bool \<Rightarrow> int \<Rightarrow> int \<Rightarrow> recipe list \<Rightarrow> recipe list"

text \<open>The query string: a parameter is absent or has a text.\<close>

record query =
  q_page :: "string option"
  q_limit :: "string option"
  q_keywords :: "string option"
  q_search :: "string option"
  q_ingredients :: "string option"
  q_cuisineType :: "string option"
  q_difficulty :: "string option"
  q_maxCookingTime :: "string option"
  q_dietaryRestrictions :: "string option"
  q_mealType :: "string option"
  q_sortBy :: "string option"
  q_sortOrder :: "string option"

text \<open>\<^verbatim>\<open>parseInt(x) || d\<close>: NaN and 0 are falsy.\<close>

definition parseInt_or :: "env \<Rightarrow> string option \<Rightarrow> int \<Rightarrow> int" where
  "parseInt_or e v d =
     (case v of
        None \<Rightarrow> d
      | Some x \<Rightarrow> (case parseInt e x of NaN \<Rightarrow> d | Num n \<Rightarrow> if n = 0 then d else n))"

text \<open>\<^verbatim>\<open>s.split(',')\<close>.\<close>

fun split :: "char \<Rightarrow> string \<Rightarrow> string list" where
  "split sep [] = [[]]"
| "split sep (c # cs) =
     (if c = sep then [] # split sep cs
      else (case split sep cs of [] \<Rightarrow> [[c]] | w # ws \<Rightarrow> (c # w) # ws))"

text \<open>
  The filter document that \<^verbatim>\<open>buildSearchFilter\<close> builds: \<^verbatim>\<open>isPublished\<close> always,
  every other key only when its parameter is given.
\<close>

record filter_doc =
  f_isPublished :: bool
  f_or :: "string option"
  f_ingredients_name :: "string list option"
  f_cuisineType :: "string option"
  f_difficulty :: "string option"
  f_cookTime_lte :: "jsint option"
  f_dietaryRestrictions_in :: "string list option"
  f_mealType_in :: "string list option"

text \<open>
  \<^verbatim>\<open>
  const filter: any = { isPublished: true };
  if (query.keywords || query.search) {
    const searchText = query.keywords || query.search;
    filter.$or = [ { title: { $regex: searchText, $options: 'i' } },
                   { description: {...} }, { tags: {...} } ];
  }
  if (query.ingredients) {
    const ingredientList = query.ingredients.split(',').map(ing => ing.trim());
    filter['ingredients.name'] = { $in: ingredientList.map(ing => new RegExp(ing, 'i')) };
  }
  if (query.cuisineType) filter.cuisineType = query.cuisineType;
  if (query.difficulty) filter.difficulty = query.difficulty;
  if (query.maxCookingTime) filter.cookTime = { $lte: parseInt(query.maxCookingTime) };
  if (query.dietaryRestrictions)
    filter.dietaryRestrictions = { $in: query.dietaryRestrictions.split(',') };
  if (query.mealType) filter.mealType = { $in: query.mealType.split(',') };
  return filter;
  \<close>
\<close>

definition buildSearchFilter :: "env \<Rightarrow> query \<Rightarrow> filter_doc" where
  "buildSearchFilter e q =
     \<lparr>f_isPublished = True,
      f_or = (case truthy (q_keywords q) of Some t \<Rightarrow> Some t | None \<Rightarrow> truthy (q_search q)),
      f_ingredients_name = map_option (\<lambda>x. map trim (split CHR '','' x)) (truthy (q_ingredients q)),
      f_cuisineType = truthy (q_cuisineType q),
      f_difficulty = truthy (q_difficulty q),
      f_cookTime_lte = map_option (parseInt e) (truthy (q_maxCookingTime q)),
      f_dietaryRestrictions_in = map_option (split CHR '','') (truthy (q_dietaryRestrictions q)),
      f_mealType_in = map_option (split CHR '','') (truthy (q_mealType q))\<rparr>"

text \<open>
  \<^verbatim>\<open>
  const sortBy = query.sortBy || 'createdAt';
  const sortOrder = query.sortOrder === 'asc' ? 1 : -1;
  sort[sortBy] = sortOrder;
  if (query.search) sort.score = { $meta: 'textScore' };
  \<close>
  The sort document is the field, its direction and whether the text score is added.
\<close>

definition buildSortOptions :: "query \<Rightarrow> string \<times> int \<times> bool" where
  "buildSortOptions q =
     ((case truthy (q_sortBy q) of None \<Rightarrow> ''createdAt'' | Some f \<Rightarrow> f),
      (if q_sortOrder q = Some ''asc'' then 1 else - 1),
      truthy (q_search q) \<noteq> None)"

text \<open>
  Whether a recipe satisfies a filter document: every key that is present must hold;
  \<^verbatim>\<open>$or\<close> asks for one of its three matches, \<^verbatim>\<open>$in\<close> on an array field for one
  element that is (or matches) one of the listed values, and no number is below NaN.
\<close>

definition matches :: "env \<Rightarrow> filter_doc \<Rightarrow> recipe \<Rightarrow> bool" where
  "matches e f r =
     (isPublished r = f_isPublished f \<and>
      (case f_or f of
         None \<Rightarrow> True
       | Some t \<Rightarrow> regexTest e t (title r) \<or> regexTest e t (description r)
                    \<or> list_ex (regexTest e t) (tags r)) \<and>
      (case f_ingredients_name f of
         None \<Rightarrow> True
       | Some ps \<Rightarrow> list_ex (\<lambda>n. list_ex (\<lambda>p. regexTest e p n) ps) (ingredient_names r)) \<and>
      (case f_cuisineType f of None \<Rightarrow> True | Some c \<Rightarrow> cuisineType r = c) \<and>
      (case f_difficulty f of None \<Rightarrow> True | Some d \<Rightarrow> difficulty r = d) \<and>
      (case f_cookTime_lte f of
         None \<Rightarrow> True
       | Some NaN \<Rightarrow> False
       | Some (Num n) \<Rightarrow> cookTime r \<le> n) \<and>
      (case f_dietaryRestrictions_in f of
         None \<Rightarrow> True
       | Some ds \<Rightarrow> list_ex (\<lambda>d. d \<in> set ds) (dietaryRestrictions r)) \<and>
      (case f_mealType_in f of
         None \<Rightarrow> True
       | Some ms \<Rightarrow> list_ex (\<lambda>m. m \<in> set ms) (mealType r)))"

text \<open>\<^verbatim>\<open>Math.ceil\<close>.\<close>

definition Math_ceil :: "rat \<Rightarrow> int" where
  "Math_ceil x = \<lceil>x\<rceil>"

record pagination =
  page :: int
  limit :: int
  total :: int
  totalPages :: int
  hasNextPage :: bool
  hasPrevPage :: bool

record search_response =
  resp_recipes :: "recipe list"
  resp_pagination :: pagination

text \<open>
  \<^verbatim>\<open>
  const page = parseInt(req.query.page) || 1;
  const limit = parseInt(req.query.limit) || 10;
  const skip = (page - 1) * limit;
  const filter = buildSearchFilter(req.query);
  const sort = buildSortOptions(req.query);
  const recipes = await Recipe.find(filter).sort(sort).skip(skip).limit(limit).lean();
  const total = await Recipe.countDocuments(filter);
  const totalPages = Math.ceil(total / limit);
  ... pagination: { page, limit, total, totalPages,
                    hasNextPage: page < totalPages, hasPrevPage: page > 1 }
  \<close>
\<close>

definition getAllRecipes :: "env \<Rightarrow> db \<Rightarrow> query \<Rightarrow> search_response" where
  "getAllRecipes e s q =
     (let pg = parseInt_or e (q_page q) 1;
          lim = parseInt_or e (q_limit q) 10;
          skip = (pg - 1) * lim;
          flt = buildSearchFilter e q;
          srt = buildSortOptions q;
          found = dbPage e srt skip lim (filter (matches e flt) (recipes s));
          tot = int (length (filter (matches e flt) (recipes s)));
          pages = Math_ceil (of_int tot / of_int lim)
      in \<lparr>resp_recipes = found,
          resp_pagination =
            \<lparr>page = pg, limit = lim, total = tot, totalPages = pages,
             hasNextPage = (pg < pages), hasPrevPage = (pg > 1)\<rparr>\<rparr>)"

text \<open>
  \<^verbatim>\<open>
  const [cuisineTypes, mealTypes, dietaryRestrictions, tags] = await Promise.all([
    Recipe.distinct('cuisineType', { isPublished: true }),
    Recipe.distinct('mealType', { isPublished: true }),
    Recipe.distinct('dietaryRestrictions', { isPublished: true }),
    Recipe.distinct('tags', { isPublished: true }) ]);
  ... cuisineTypes.filter(Boolean), mealTypes.flat().filter(Boolean), ...
  \<close>
  \<^verbatim>\<open>distinct\<close> gives each value of the field once, the elements of an array field
  counted one by one; \<^verbatim>\<open>filter(Boolean)\<close> drops the empty string.
\<close>

record categories =
  cat_cuisineTypes :: "string list"
  cat_mealTypes :: "string list"
  cat_dietaryRestrictions :: "string list"
  cat_tags :: "string list"

definition getCategories :: "db \<Rightarrow> categories" where
  "getCategories s =
     (let pub = filter (\<lambda>r. isPublished r = True) (recipes s)
      in \<lparr>cat_cuisineTypes = filter (\<lambda>x. x \<noteq> []) (remdups (map cuisineType pub)),
          cat_mealTypes = filter (\<lambda>x. x \<noteq> []) (remdups (concat (map mealType pub))),
          cat_dietaryRestrictions =
            filter (\<lambda>x. x \<noteq> []) (remdups (concat (map dietaryRestrictions pub))),
          cat_tags = filter (\<lambda>x. x \<noteq> []) (remdups (concat (map tags pub)))\<rparr>)"

section \<open>Request validation (validation.middleware.ts, comment.validation.ts)\<close>

text \<open>
  \<^verbatim>\<open>
  export const validate = (schema, property = 'body') => (req, _res, next) => {
    const { error, value } = schema.validate(req[property],
                               { abortEarly: false, stripUnknown: true, convert: true });
    if (error) {
      const errorMessage = error.details.map(detail => detail.message).join(', ');
      throw new ValidationError(errorMessage);
    }
    req[property] = value;
    next();
  };
  \<close>
  A schema gives the messages of the violations it finds or, when it finds none, the body
  that the controller will read: the keys of the schema, converted, and no other key.
\<close>

definition validate :: "('b \<Rightarrow> string list + 'c) \<Rightarrow> 'b \<Rightarrow> error + 'c" where
  "validate schema body =
     (case schema body of
        Inl details \<Rightarrow> Inl (ValidationError (join '', '' details))
      | Inr value \<Rightarrow> Inr value)"





text \<open>
  The body of a rating request and what rateRecipe reads from the body it is given
  (\<^verbatim>\<open>const { rating } = req.body\<close>).
  \<^verbatim>\<open>
  rating: Joi.object({
    value: Joi.number().integer().min(1).max(5).required().messages({
      'number.base': 'Rating must be a number',
      'number.integer': 'Rating must be a whole number',
      'number.min': 'Rating must be at least 1',
      'number.max': 'Rating cannot exceed 5',
      'any.required': 'Rating value is required' }),
    review: Joi.string().trim().max(1000).allow('').optional().messages({
      'string.max': 'Review cannot exceed 1000 characters' }) })
  export const validateRating = validate(commentValidationSchemas.rating);
  \<close>
  The keys of the schema are \<^verbatim>\<open>value\<close> and \<^verbatim>\<open>review\<close>; the key \<^verbatim>\<open>rating\<close>, which
  the controller reads, is not among them and is stripped.
\<close>

record rating_body =
  body_value :: "rat option"
  body_review :: "string option"
  body_rating :: "rat option"

record rating_fields =
  read_value :: rat
  read_review :: "string option"
  read_rating :: "rat option"

definition rating_schema :: "rating_body \<Rightarrow> string list + rating_fields" where
  "rating_schema b =
     (let review_details =
            (case body_review b of
               None \<Rightarrow> []
             | Some t \<Rightarrow> if 1000 < length (trim t)
                         then [''Review cannot exceed 1000 characters''] else [])
      in case body_value b of
           None \<Rightarrow> Inl (''Rating value is required'' # review_details)
         | Some v \<Rightarrow>
             let details =
                   (if of_int \<lfloor>v\<rfloor> \<noteq> v then [''Rating must be a whole number''] else []) @
                   (if v < 1 then [''Rating must be at least 1''] else []) @
                   (if 5 < v then [''Rating cannot exceed 5''] else []) @ review_details
             in if details \<noteq> [] then Inl details
                else Inr \<lparr>read_value = v, read_review = map_option trim (body_review b),
                          read_rating = None\<rparr>)"

definition validateRating :: "rating_body \<Rightarrow> error + rating_fields" where
  "validateRating = validate rating_schema"


definition route_rateRecipe ::
  "(notification \<Rightarrow> bool) \<Rightarrow> db \<Rightarrow> objectId \<Rightarrow> objectId \<Rightarrow> rating_body \<Rightarrow> nat
     \<Rightarrow> (error + rate_response) \<times> db" where
  "route_rateRecipe valid s uid recipeId body now =
     (case validateRating body of
        Inl e \<Rightarrow> (Inl e, s)
      | Inr b \<Rightarrow> rateRecipe valid s uid recipeId (read_rating b) now)"

section \<open>Requests\<close>

text \<open>
  The controllers of the write path, each with the arguments it takes from its request,
  and the store that a sequence of requests leaves. An error of a request is caught by
  \<^verbatim>\<open>catchAsync\<close>; what the request had written before stays written.
\<close>

datatype request =
    RateRecipe objectId objectId "rat option" nat
  | ToggleLikeRecipe objectId objectId
  | AddComment objectId objectId string "objectId option" objectId
  | DeleteComment objectId objectId
  | LikeComment objectId objectId
  | UnlikeComment objectId objectId
  | ToggleCommentLike objectId objectId
  | FollowUser objectId objectId
  | UnfollowUser objectId objectId
  | DeleteRecipe objectId objectId

fun handle :: "(notification \<Rightarrow> bool) \<Rightarrow> db \<Rightarrow> request \<Rightarrow> db" where
  "handle valid s (RateRecipe uid rid v now) = snd (rateRecipe valid s uid rid v now)"
| "handle valid s (ToggleLikeRecipe uid rid) = snd (toggleLikeRecipe valid s uid rid)"
| "handle valid s (AddComment uid rid text parent newId) =
     snd (addComment valid s uid rid text parent newId)"
| "handle valid s (DeleteComment uid cid) = snd (deleteComment s uid cid)"
| "handle valid s (LikeComment uid cid) = snd (likeComment valid s uid cid)"
| "handle valid s (UnlikeComment uid cid) = snd (unlikeComment s uid cid)"
| "handle valid s (ToggleCommentLike uid cid) = snd (toggleCommentLike valid s uid cid)"
| "handle valid s (FollowUser uid target) = snd (followUser valid s uid target)"
| "handle valid s (UnfollowUser uid target) = snd (unfollowUser s uid target)"
| "handle valid s (DeleteRecipe uid rid) = snd (deleteRecipe s uid rid)"

definition run :: "(notification \<Rightarrow> bool) \<Rightarrow> db \<Rightarrow> request list \<Rightarrow> db" where
  "run valid s reqs = foldl (handle valid) s reqs"

text \<open>A sequence of rating calls, each by a user on a recipe with a value at a time.\<close>

definition rateAll ::
  "(notification \<Rightarrow> bool) \<Rightarrow> db \<Rightarrow> (objectId \<times> objectId \<times> rat option \<times> nat) list \<Rightarrow> db" where
  "rateAll valid s calls =
     foldl (\<lambda>t (uid, rid, v, now). snd (rateRecipe valid t uid rid v now)) s calls"

section \<open>Properties of the store\<close>

text \<open>No notification has its sender as its recipient.\<close>

definition no_self_notification :: "db \<Rightarrow> bool" where
  "no_self_notification s = list_all (\<lambda>n. recipient n \<noteq> sender n) (notifications s)"

text \<open>
  The second store has the notifications of the first and, after them, only notifications
  whose recipient is not their sender.
\<close>

definition notifies_others :: "db \<Rightarrow> db \<Rightarrow> bool" where
  "notifies_others s s' =
     (\<exists>created. notifications s' = notifications s @ created \<and>
                list_all (\<lambda>n. recipient n \<noteq> sender n) created)"

text \<open>How many entries of a ratings list belong to a user.\<close>

definition entries_of :: "objectId \<Rightarrow> rating_entry list \<Rightarrow> nat" where
  "entries_of u rs = length (filter (\<lambda>e. userId e = u) rs)"

text \<open>Every recipe of the store has at most one rating entry per user.\<close>

definition one_rating_per_user :: "db \<Rightarrow> bool" where
  "one_rating_per_user s = list_all (\<lambda>r. distinct (map userId (ratings r))) (recipes s)"


section \<open>Example data\<close>

definition rated_recipe :: recipe where
  "rated_recipe =
     \<lparr>recipe_id = ''r1'', title = ''Soup'', description = ''A warm soup'', author = ''alice'',
      ingredient_names = [''leek''], cuisineType = ''French'', mealType = [''Dinner''],
      dietaryRestrictions = [], tags = [], difficulty = ''Easy'', cookTime = 30, views = 0,
      likes = [''carol''],
      ratings = [\<lparr>userId = ''alice'', rating = 5, review = None, createdAt = 1\<rparr>,
                 \<lparr>userId = ''bob'', rating = 5, review = None, createdAt = 2\<rparr>,
                 \<lparr>userId = ''carol'', rating = 4, review = None, createdAt = 3\<rparr>],
      isPublic = True, isPublished = True\<rparr>"

definition private_recipe :: recipe where
  "private_recipe =
     \<lparr>recipe_id = ''r2'', title = ''Secret stew'', description = ''Not for everyone'',
      author = ''bob'', ingredient_names = [''beans''], cuisineType = ''Mexican'',
      mealType = [''Lunch''], dietaryRestrictions = [''Vegan''], tags = [''family''],
      difficulty = ''Hard'', cookTime = 90, views = 0, likes = [], ratings = [],
      isPublic = False, isPublished = True\<rparr>"

definition root_comment :: comment where
  "root_comment =
     \<lparr>comment_id = ''c1'', content = ''Lovely'', comment_author = ''alice'',
      comment_recipe = ''r1'', parentComment = None, comment_likes = [],
      isEdited = False, editedAt = None\<rparr>"

definition reply_comment :: comment where
  "reply_comment =
     \<lparr>comment_id = ''c2'', content = ''Indeed'', comment_author = ''alice'',
      comment_recipe = ''r1'', parentComment = Some ''c1'', comment_likes = [],
      isEdited = False, editedAt = None\<rparr>"

definition other_comment :: comment where
  "other_comment =
     \<lparr>comment_id = ''c5'', content = ''Spicy'', comment_author = ''carol'',
      comment_recipe = ''r2'', parentComment = None, comment_likes = [],
      isEdited = False, editedAt = None\<rparr>"

definition example_db :: db where
  "example_db =
     \<lparr>users = [\<lparr>user_id = ''alice'', username = ''alice'', following = [''bob''],
                 followers = [], favoriteRecipes = []\<rparr>,
               \<lparr>user_id = ''bob'', username = ''bob'', following = [],
                 followers = [''alice''], favoriteRecipes = [''r1'', ''r2'']\<rparr>,
               \<lparr>user_id = ''carol'', username = ''carol'', following = [],
                 followers = [], favoriteRecipes = [''r1'']\<rparr>],
      recipes = [rated_recipe, private_recipe],
      comments = [root_comment, reply_comment, other_comment],
      notifications = []\<rparr>"

text \<open>
  An environment for the examples: \<^verbatim>\<open>parseInt\<close> knows two texts, no pattern matches,
  and the cursor keeps the order of the collection.
\<close>

definition example_env :: env where
  "example_env =
     \<lparr>parseInt = (\<lambda>x. if x = ''2'' then Num 2 else if x = ''1'' then Num 1 else NaN),
      regexTest = (\<lambda>p x. False),
      dbPage = (\<lambda>srt skip lim xs. take (nat lim) (drop (nat skip) xs))\<rparr>"

definition empty_query :: query where
  "empty_query =
     \<lparr>q_page = None, q_limit = None, q_keywords = None, q_search = None,
      q_ingredients = None, q_cuisineType = None, q_difficulty = None,
      q_maxCookingTime = None, q_dietaryRestrictions = None, q_mealType = None,
      q_sortBy = None, q_sortOrder = None\<rparr>"

definition example_requests :: "request list" where
  "example_requests =
     [RateRecipe ''alice'' ''r1'' (Some 4) 20, RateRecipe ''dave'' ''r1'' (Some 3) 21,
      ToggleLikeRecipe ''alice'' ''r1'', ToggleLikeRecipe ''bob'' ''r1'',
      AddComment ''alice'' ''r1'' ''Mine'' (Some ''c1'') ''c3'',
      AddComment ''bob'' ''r1'' ''Yours'' (Some ''c1'') ''c4'',
      LikeComment ''alice'' ''c1'', ToggleCommentLike ''bob'' ''c1'',
      FollowUser ''carol'' ''carol'', FollowUser ''carol'' ''alice'']"

definition one_per_page_query :: query where
  "one_per_page_query = empty_query\<lparr>q_page := Some ''1'', q_limit := Some ''1''\<rparr>"

text \<open>
  A recipe with one rating, the double that the literal \<^verbatim>\<open>1.15\<close> stands for; it lies
  between 1 and 5, as ratingSchema and the check of rateRecipe ask.
\<close>

definition fractional_recipe :: recipe where
  "fractional_recipe =
     rated_recipe\<lparr>ratings := [\<lparr>userId = ''bob'', rating = 5179139571476070 / 4503599627370496,
                                review = None, createdAt = 2\<rparr>]\<rparr>"

text \<open>A recipe with two ratings, the doubles of 1.2 and of 1.9.\<close>

definition fractional_pair_recipe :: recipe where
  "fractional_pair_recipe =
     rated_recipe\<lparr>ratings := [\<lparr>userId = ''bob'', rating = fl (6 / 5),
                                review = None, createdAt = 2\<rparr>,
                               \<lparr>userId = ''carol'', rating = fl (19 / 10),
                                review = None, createdAt = 3\<rparr>]\<rparr>"

text \<open>
  The arithmetic mean of a list of values and the rounding of a value to one decimal place
  (a tie going up), as the specification words them.
\<close>

definition mean :: "rat list \<Rightarrow> rat" where
  "mean vs = sum_list vs / of_nat (length vs)"

definition round1 :: "rat \<Rightarrow> rat" where
  "round1 x = of_int \<lfloor>x * 10 + 1 / 2\<rfloor> / 10"

text \<open>
  The odd numbers \<open>m = 2 * i + 1\<close> with \<open>i\<close> from \<open>l\<close> to \<open>u\<close> for which \<open>m / 20\<close>, made a
  double and multiplied by 10 in doubles, gives \<open>m / 2\<close> itself.
\<close>

definition tie_free :: "int \<Rightarrow> int \<Rightarrow> bool" where
  "tie_free l u =
     list_all (\<lambda>m. fl (fl (of_int m / 20) * 10) = of_int m / 2) (map (\<lambda>i. 2 * i + 1) [l..u])"

section \<open>Average rating\<close>

subsection \<open>Rounding to a double\<close>

lemma bitlen_powi:
  assumes "0 < p"
  shows "(2::rat) powi (bitlen p - 1) \<le> of_int p" and "of_int p < (2::rat) powi bitlen p"
proof -
  have b: "1 \<le> bitlen p" using assms by (auto simp: bitlen_alt_def)
  from bitlen_bounds [OF assms]
  have l: "2 ^ nat (bitlen p - 1) \<le> p" and u: "p < 2 ^ nat (bitlen p)"
    by auto
  have "(2::rat) powi (bitlen p - 1) = 2 ^ nat (bitlen p - 1)"
    using b by (simp add: power_int_def)
  also have "\<dots> = of_int (2 ^ nat (bitlen p - 1))" by simp
  also have "\<dots> \<le> of_int p" using l by (simp only: of_int_le_iff)
  finally show "(2::rat) powi (bitlen p - 1) \<le> of_int p" .
  have "of_int p < (of_int (2 ^ nat (bitlen p)) :: rat)" using u by (simp only: of_int_less_iff)
  also have "\<dots> = 2 powi bitlen p" using b by (simp add: power_int_def)
  finally show "of_int p < (2::rat) powi bitlen p" .
qed

text \<open>The exponent that \<open>expo\<close> finds leaves a whole part of exactly 53 bits.\<close>

lemma expo_bounds:
  assumes "0 < x"
  shows "2 ^ 52 \<le> x / 2 powi expo x" and "x / 2 powi expo x < 2 ^ 53"
proof -
  obtain p q where pq: "quotient_of x = (p, q)" by (cases "quotient_of x")
  then have q: "0 < q" and x: "x = of_int p / of_int q"
    by (auto dest: quotient_of_denom_pos quotient_of_div)
  have p: "0 < p" using assms q x by (simp add: zero_less_divide_iff)
  define d where "d = bitlen p - bitlen q"
  have pl: "(2::rat) powi (bitlen p - 1) \<le> of_int p" and pu: "of_int p < (2::rat) powi bitlen p"
    using bitlen_powi [OF p] by auto
  have ql: "(2::rat) powi (bitlen q - 1) \<le> of_int q" and qu: "of_int q < (2::rat) powi bitlen q"
    using bitlen_powi [OF q] by auto
  have lo: "2 powi (d - 1) < x"
  proof -
    have "2 powi (d - 1) * of_int q < 2 powi (d - 1) * (2::rat) powi bitlen q"
      using qu by simp
    also have "\<dots> = 2 powi (bitlen p - 1)"
      by (simp add: d_def flip: power_int_add)
    also have "\<dots> \<le> of_int p" by (rule pl)
    finally show ?thesis using q by (simp add: x pos_less_divide_eq)
  qed
  have hi: "x < 2 powi (d + 1)"
  proof -
    have "of_int p < (2::rat) powi bitlen p" by (rule pu)
    also have "\<dots> = 2 powi (d + 1) * 2 powi (bitlen q - 1)"
      by (simp add: d_def flip: power_int_add)
    also have "\<dots> \<le> 2 powi (d + 1) * of_int q"
      using ql by simp
    finally show ?thesis using q by (simp add: x pos_divide_less_eq)
  qed
  have e: "expo x = (if x < 2 powi d then d - 53 else d - 52)"
    using assms pq by (simp add: expo_def d_def Let_def)
  have s1: "(2::rat) powi d = 2 ^ 53 * 2 powi (d - 53)"
    by (simp add: power_int_diff)
  have s2: "(2::rat) powi (d - 1) = 2 ^ 52 * 2 powi (d - 53)"
    by (simp add: power_int_diff)
  have s3: "(2::rat) powi d = 2 ^ 52 * 2 powi (d - 52)"
    by (simp add: power_int_diff)
  have s4: "(2::rat) powi (d + 1) = 2 ^ 53 * 2 powi (d - 52)"
    by (simp add: power_int_diff power_int_add)
  show "2 ^ 52 \<le> x / 2 powi expo x"
  proof (cases "x < 2 powi d")
    case True
    then show ?thesis using lo unfolding s2 e by (simp add: pos_le_divide_eq)
  next
    case False
    then show ?thesis unfolding s3 e by (simp add: pos_le_divide_eq)
  qed
  show "x / 2 powi expo x < 2 ^ 53"
  proof (cases "x < 2 powi d")
    case True
    then show ?thesis unfolding s1 e by (simp add: pos_divide_less_eq)
  next
    case False
    then show ?thesis using hi unfolding s4 e by (simp add: pos_divide_less_eq)
  qed
qed

lemma round_even_near: "\<bar>of_int (round_even y) - y\<bar> \<le> 1 / 2"
proof -
  define n where "n = \<lfloor>y\<rfloor>"
  have "of_int n \<le> y" "y < of_int n + 1" unfolding n_def by linarith+
  then show ?thesis
    unfolding round_even_def Let_def n_def [symmetric] by (auto simp: abs_le_iff)
qed

lemma round_even_of_int: "round_even (of_int k) = k"
  by (simp add: round_even_def)

text \<open>The relative error of a rounding is at most \<open>2 ^ -53\<close>.\<close>

lemma fl_error:
  assumes "0 < x"
  shows "\<bar>fl x - x\<bar> \<le> x / 2 ^ 53"
proof -
  define e where "e = (2::rat) powi expo x"
  have e: "0 < e" by (simp add: e_def)
  have "2 ^ 52 \<le> x / e" using expo_bounds(1) [OF assms] by (simp add: e_def)
  then have le: "e * 2 ^ 52 \<le> x" using e by (simp add: pos_le_divide_eq mult.commute)
  have "fl x - x = (of_int (round_even (x / e)) - x / e) * e"
    using assms e by (simp add: fl_def e_def field_simps)
  then have "\<bar>fl x - x\<bar> = \<bar>of_int (round_even (x / e)) - x / e\<bar> * e"
    using e by (simp add: abs_mult)
  also have "\<dots> \<le> 1 / 2 * e"
    using round_even_near [of "x / e"] e by (intro mult_right_mono) simp_all
  also have "\<dots> \<le> x / 2 ^ 53" using le by simp
  finally show ?thesis .
qed

text \<open>A whole number below \<open>2 ^ 53\<close> is a double.\<close>

lemma fl_of_int:
  assumes "0 < k" "k < 2 ^ 53"
  shows "fl (of_int k) = of_int k"
proof -
  define e where "e = expo (of_int k)"
  have k: "(0::rat) < of_int k" using assms by simp
  have b: "2 ^ 52 \<le> of_int k / (2::rat) powi e"
    using expo_bounds(1) [OF k] by (simp add: e_def)
  have "e \<le> 0"
  proof (rule ccontr)
    assume "\<not> e \<le> 0"
    then have "1 \<le> e" by simp
    then have "(2::rat) powi 1 \<le> 2 powi e" by (intro power_int_increasing) simp_all
    then have "(2::rat) \<le> 2 powi e" by simp
    then have "2 ^ 52 * (2::rat) \<le> 2 ^ 52 * 2 powi e" by simp
    also have "\<dots> \<le> of_int k" using b by (simp add: pos_le_divide_eq)
    finally have "(2::rat) ^ 53 \<le> of_int k" by simp
    moreover have "of_int k < (of_int (2 ^ 53) :: rat)"
      using assms(2) by (simp only: of_int_less_iff)
    ultimately show False by simp
  qed
  then have pw: "(2::rat) powi e = inverse (2 ^ nat (- e))"
    by (auto simp: power_int_def power_inverse power_divide inverse_eq_divide)
  have "of_int k / (2::rat) powi e = of_int (k * 2 ^ nat (- e))"
    by (simp add: pw divide_inverse)
  then have "round_even (of_int k / (2::rat) powi e) = k * 2 ^ nat (- e)"
    by (simp only: round_even_of_int)
  then show ?thesis
    using k by (simp add: fl_def flip: e_def) (simp add: pw)
qed

subsection \<open>The tenths of a mean of whole ratings\<close>

text \<open>
  A mean of whole ratings from 1 to 5 whose tenfold lies halfway between two whole numbers
  is one of forty values, an odd number of twentieths from 21 / 20 to 99 / 20. For each of
  them the two roundings give the halfway value itself.
\<close>

lemma tie_values_1: "tie_free 10 19"
  unfolding tie_free_def by code_simp

lemma tie_values_2: "tie_free 20 29"
  unfolding tie_free_def by code_simp

lemma tie_values_3: "tie_free 30 39"
  unfolding tie_free_def by code_simp

lemma tie_values_4: "tie_free 40 49"
  unfolding tie_free_def by code_simp

lemma tie_freeD:
  assumes "tie_free l u" "l \<le> i" "i \<le> u"
  shows "fl (fl (of_int (2 * i + 1) / 20) * 10) = of_int (2 * i + 1) / 2"
proof -
  from assms(2,3) have "i \<in> set [l..u]" by (simp only: set_upto atLeastAtMost_iff)
  then have "2 * i + 1 \<in> (\<lambda>i. 2 * i + 1) ` set [l..u]" by (rule imageI)
  then have "2 * i + 1 \<in> set (map (\<lambda>i. 2 * i + 1) [l..u])" by (simp only: set_map)
  then show ?thesis using assms(1) unfolding tie_free_def list_all_iff by blast
qed

lemma tie_values:
  assumes "10 \<le> i" "i \<le> 49"
  shows "fl (fl (of_int (2 * i + 1) / 20) * 10) = of_int (2 * i + 1) / 2"
proof -
  consider "i \<le> 19" | "20 \<le> i" "i \<le> 29" | "30 \<le> i" "i \<le> 39" | "40 \<le> i"
    by linarith
  then show ?thesis
  proof cases
    case 1
    with assms show ?thesis by (intro tie_freeD [OF tie_values_1])
  next
    case 2
    then show ?thesis by (intro tie_freeD [OF tie_values_2])
  next
    case 3
    then show ?thesis by (intro tie_freeD [OF tie_values_3])
  next
    case 4
    with assms show ?thesis by (intro tie_freeD [OF tie_values_4])
  qed
qed

text \<open>
  For a sum \<open>s\<close> of \<open>n\<close> whole ratings the doubles \<open>s / n\<close> and \<open>(s / n) * 10\<close> are off by at
  most \<open>110 / 2 ^ 53\<close>, and the exact value is a tie or at least \<open>1 / (2 * n)\<close> away from
  one; so \<^verbatim>\<open>Math.round\<close> gives the same whole number for both.
\<close>

lemma Math_round_tenths:
  fixes s n :: int
  assumes n: "0 < n" "n \<le> 2 ^ 40" and s: "n \<le> s" "s \<le> 5 * n"
  shows "Math_round (fl (fl (of_int s / of_int n) * 10)) = Math_round (of_int s / of_int n * 10)"
proof -
  define q :: rat where "q = of_int s / of_int n"
  define a where "a = fl q"
  define b where "b = fl (a * 10)"
  define k where "k = Math_round (q * 10)"
  have n0: "(0::rat) < of_int n" using n by simp
  have q1: "1 \<le> q" using s(1) n0 by (simp add: q_def pos_le_divide_eq)
  have q5: "q \<le> 5"
  proof -
    have "(of_int s :: rat) \<le> of_int (5 * n)" using s(2) by (simp only: of_int_le_iff)
    then show ?thesis using n0 by (simp add: q_def pos_divide_le_eq)
  qed
  have ea: "\<bar>a - q\<bar> \<le> q / 2 ^ 53"
    unfolding a_def using q1 by (intro fl_error) simp
  have ea': "a - q \<le> q / 2 ^ 53" "q - a \<le> q / 2 ^ 53"
    using ea by (simp_all only: abs_le_iff minus_diff_eq)
  have a0: "0 < a" using ea'(2) q1 by simp
  have a6: "a \<le> 6" using ea'(1) q5 by simp
  have eb: "\<bar>b - a * 10\<bar> \<le> a * 10 / 2 ^ 53"
    unfolding b_def using a0 by (intro fl_error) simp
  have eb': "b - a * 10 \<le> a * 10 / 2 ^ 53" "a * 10 - b \<le> a * 10 / 2 ^ 53"
    using eb by (simp_all only: abs_le_iff minus_diff_eq)
  have err: "b - q * 10 \<le> 110 / 2 ^ 53" "q * 10 - b \<le> 110 / 2 ^ 53"
    using ea' eb' q5 a6 by simp_all
  have gap: "(110::rat) / 2 ^ 53 < 1 / (2 * of_int n)"
  proof -
    have "(of_int n :: rat) \<le> of_int (2 ^ 40)" using n(2) by (simp only: of_int_le_iff)
    then have "2 * (of_int n :: rat) \<le> 2 ^ 41" by simp
    then have "1 / (2 ^ 41 :: rat) \<le> 1 / (2 * of_int n)"
      using n0 by (intro divide_left_mono) simp_all
    then show ?thesis by simp
  qed
  have kl: "of_int k \<le> q * 10 + 1 / 2" and ku: "q * 10 + 1 / 2 < of_int k + 1"
    unfolding k_def Math_round_def by linarith+
  have qn: "q * of_int n = of_int s" using n0 by (simp add: q_def)
  have upper: "q * 10 + 1 / 2 + 1 / (2 * of_int n) \<le> of_int k + 1"
  proof -
    have "(q * 10 + 1 / 2) * (2 * of_int n) < (of_int k + 1) * (2 * of_int n)"
      using ku n0 by (intro mult_strict_right_mono) simp_all
    then have "of_int (20 * s + n) < (of_int ((k + 1) * (2 * n)) :: rat)"
      by (simp add: algebra_simps qn [symmetric])
    then have "20 * s + n < (k + 1) * (2 * n)" by (simp only: of_int_less_iff)
    then have "20 * s + n + 1 \<le> (k + 1) * (2 * n)" by simp
    then have "(of_int (20 * s + n + 1) :: rat) \<le> of_int ((k + 1) * (2 * n))"
      by (simp only: of_int_le_iff)
    then have "(q * 10 + 1 / 2 + 1 / (2 * of_int n)) * (2 * of_int n)
                 \<le> (of_int k + 1) * (2 * of_int n)"
      using n0 by (simp add: algebra_simps qn [symmetric])
    then show ?thesis using n0 by (simp only: mult_le_cancel_right)
  qed
  have le: "2 * k * n \<le> 20 * s + n"
  proof -
    have "of_int k * (2 * of_int n) \<le> (q * 10 + 1 / 2) * (2 * of_int n)"
      using kl n0 by (intro mult_right_mono) simp_all
    then have "(of_int (2 * k * n) :: rat) \<le> of_int (20 * s + n)"
      by (simp add: algebra_simps qn [symmetric])
    then show ?thesis by (simp only: of_int_le_iff)
  qed
  have "\<lfloor>b + 1 / 2\<rfloor> = k"
  proof (cases "2 * k * n = 20 * s + n")
    case True
    then have "(of_int (20 * s) :: rat) = of_int ((2 * k - 1) * n)"
      by (simp add: algebra_simps)
    then have "20 * (q * of_int n) = of_int (2 * k - 1) * of_int n"
      by (simp add: qn)
    then have qk: "q = of_int (2 * k - 1) / 20" using n0 by simp
    have "20 \<le> (of_int (2 * k - 1) :: rat)" "(of_int (2 * k - 1) :: rat) \<le> 100"
      using q1 q5 unfolding qk by simp_all
    then have "(of_int 20 :: rat) \<le> of_int (2 * k - 1)"
              "(of_int (2 * k - 1) :: rat) \<le> of_int 100"
      by simp_all
    then have "20 \<le> 2 * k - 1" "2 * k - 1 \<le> 100" by (simp_all only: of_int_le_iff)
    then have "10 \<le> k - 1" "k - 1 \<le> 49" by simp_all
    then have "fl (fl (of_int (2 * (k - 1) + 1) / 20) * 10) = of_int (2 * (k - 1) + 1) / 2"
      by (rule tie_values)
    moreover have "2 * (k - 1) + 1 = 2 * k - 1" by simp
    ultimately have "b = of_int (2 * k - 1) / 2"
      unfolding b_def a_def qk by simp
    then have "b + 1 / 2 = of_int k" by simp
    then show ?thesis by simp
  next
    case False
    with le have "2 * k * n + 1 \<le> 20 * s + n" by simp
    then have "(of_int (2 * k * n + 1) :: rat) \<le> of_int (20 * s + n)"
      by (simp only: of_int_le_iff)
    then have "(of_int k + 1 / (2 * of_int n)) * (2 * of_int n)
                 \<le> (q * 10 + 1 / 2) * (2 * of_int n)"
      using n0 by (simp add: algebra_simps qn [symmetric])
    then have lower: "of_int k + 1 / (2 * of_int n) \<le> q * 10 + 1 / 2"
      using n0 by (simp only: mult_le_cancel_right)
    have "of_int k \<le> b + 1 / 2" using lower err(2) gap by linarith
    moreover have "b + 1 / 2 < of_int k + 1" using upper err(1) gap by linarith
    ultimately show ?thesis by (simp add: floor_unique)
  qed
  then show ?thesis
    by (simp add: Math_round_def b_def a_def k_def q_def)
qed

text \<open>The sum of whole ratings is computed without a rounding error.\<close>

lemma whole_rating:
  assumes "x \<in> {1, 2, 3, 4, 5 :: rat}"
  shows "x = of_int \<lfloor>x\<rfloor> \<and> 1 \<le> \<lfloor>x\<rfloor> \<and> \<lfloor>x\<rfloor> \<le> 5"
  using assms by auto

lemma whole_sum:
  assumes "\<forall>e \<in> set rs. rating e \<in> {1, 2, 3, 4, 5}"
  shows "\<exists>t::int. sum_list (map rating rs) = of_int t \<and>
                   int (length rs) \<le> t \<and> t \<le> 5 * int (length rs)"
  using assms
proof (induction rs)
  case Nil
  show ?case by (intro exI [of _ 0]) simp
next
  case (Cons e rs)
  then obtain t where t: "sum_list (map rating rs) = of_int t"
      "int (length rs) \<le> t" "t \<le> 5 * int (length rs)"
    by auto
  from Cons.prems have "rating e \<in> {1, 2, 3, 4, 5}" by simp
  then have k: "rating e = of_int \<lfloor>rating e\<rfloor>" "1 \<le> \<lfloor>rating e\<rfloor>" "\<lfloor>rating e\<rfloor> \<le> 5"
    using whole_rating by blast+
  define k where "k = \<lfloor>rating e\<rfloor>"
  have ke: "rating e = of_int k" and k1: "1 \<le> k" and k5: "k \<le> 5"
    using k by (simp_all add: k_def)
  have "sum_list (map rating (e # rs)) = of_int (k + t)"
    using ke t(1) by simp
  moreover have "int (length (e # rs)) \<le> k + t" using k1 t(2) by simp
  moreover have "k + t \<le> 5 * int (length (e # rs))" using k5 t(3) by simp
  ultimately show ?case by blast
qed

lemma foldl_fl_whole:
  assumes "\<forall>e \<in> set rs. rating e \<in> {1, 2, 3, 4, 5}"
    and "0 \<le> a" and "a + 5 * int (length rs) < 2 ^ 53"
  shows "foldl (\<lambda>acc x. fl (acc + rating x)) (of_int a) rs = of_int a + sum_list (map rating rs)"
  using assms
proof (induction rs arbitrary: a)
  case Nil
  show ?case by simp
next
  case (Cons e rs)
  from Cons.prems have "rating e \<in> {1, 2, 3, 4, 5}" by simp
  then have k: "rating e = of_int \<lfloor>rating e\<rfloor>" "1 \<le> \<lfloor>rating e\<rfloor>" "\<lfloor>rating e\<rfloor> \<le> 5"
    using whole_rating by blast+
  define k where "k = \<lfloor>rating e\<rfloor>"
  have ke: "rating e = of_int k" and k1: "1 \<le> k" and k5: "k \<le> 5"
    using k by (simp_all add: k_def)
  have "0 < a + k" "a + k < 2 ^ 53" using Cons.prems(2,3) k1 k5 by simp_all
  then have "fl (of_int (a + k)) = of_int (a + k)" by (rule fl_of_int)
  then have step: "fl (of_int a + rating e) = of_int (a + k)"
    by (simp only: ke of_int_add)
  have "foldl (\<lambda>acc x. fl (acc + rating x)) (of_int (a + k)) rs =
          of_int (a + k) + sum_list (map rating rs)"
    using Cons.prems k1 k5 by (intro Cons.IH) simp_all
  then have "foldl (\<lambda>acc x. fl (acc + rating x)) (fl (of_int a + rating e)) rs =
          of_int a + (rating e + sum_list (map rating rs))"
    by (simp only: step) (simp add: ke)
  then show ?case by simp
qed

lemma averageRating_whole:
  assumes whole: "\<forall>e \<in> set (ratings r). rating e \<in> {1, 2, 3, 4, 5}"
    and small: "length (ratings r) < 2 ^ 40"
    and ne: "ratings r \<noteq> []"
  shows "averageRating r = fl (round1 (mean (map rating (ratings r))))"
proof -
  define n where "n = int (length (ratings r))"
  have n: "0 < n" "n \<le> 2 ^ 40" using ne small by (simp_all add: n_def)
  obtain t where t: "sum_list (map rating (ratings r)) = of_int t" "n \<le> t" "t \<le> 5 * n"
    using whole_sum [OF whole] by (auto simp: n_def)
  have "5 * n < 2 ^ 53" using n(2) by simp
  then have "foldl (\<lambda>acc x. fl (acc + rating x)) (of_int 0) (ratings r) =
               of_int 0 + sum_list (map rating (ratings r))"
    using whole by (intro foldl_fl_whole) (simp_all add: n_def)
  then have sum: "foldl (\<lambda>acc x. fl (acc + rating x)) 0 (ratings r) = of_int t"
    using t(1) by simp
  have len: "(of_nat (length (ratings r)) :: rat) = of_int n" by (simp add: n_def)
  have "averageRating r = fl (of_int (Math_round (fl (fl (of_int t / of_int n) * 10))) / 10)"
    using ne by (simp add: averageRating_def sum len)
  also have "\<dots> = fl (of_int (Math_round (of_int t / of_int n * 10)) / 10)"
    using Math_round_tenths [OF n t(2,3)] by simp
  also have "\<dots> = fl (round1 (mean (map rating (ratings r))))"
    by (simp add: round1_def mean_def Math_round_def t(1) len)
  finally show ?thesis .
qed

text \<open>
  C1. The average rating of a recipe is a function of its ratings list alone, and it is 0
  for an empty list. For a list of fewer than \<open>2 ^ 40\<close> whole ratings from 1 to 5 it is the
  double that stands for the mean of the rating values rounded to one decimal place (a tie
  is rounded up).
\<close>

theorem averageRating_is_rounded_mean_of_whole_ratings:
  assumes whole: "\<forall>e \<in> set (ratings r). rating e \<in> {1, 2, 3, 4, 5}"
    and small: "length (ratings r) < 2 ^ 40"
  shows "(ratings r = [] \<longrightarrow> averageRating r = 0) \<and>
         (ratings r \<noteq> [] \<longrightarrow>
            averageRating r = fl (round1 (mean (map rating (ratings r))))) \<and>
         (\<forall>r'. ratings r' = ratings r \<longrightarrow> averageRating r' = averageRating r)"
proof (intro conjI impI allI)
  assume "ratings r = []"
  then show "averageRating r = 0" by (simp add: averageRating_def)
next
  assume "ratings r \<noteq> []"
  with whole small show "averageRating r = fl (round1 (mean (map rating (ratings r))))"
    by (rule averageRating_whole)
next
  fix r' :: recipe
  assume "ratings r' = ratings r"
  then show "averageRating r' = averageRating r" by (simp add: averageRating_def)
qed

theorem averageRating_is_rounded_mean_of_whole_ratings_witness:
  "map rating (ratings rated_recipe) = [5, 5, 4] \<and>
   length (ratings rated_recipe) < 2 ^ 40 \<and>
   mean (map rating (ratings rated_recipe)) = 14 / 3 \<and>
   round1 (14 / 3) = 47 / 10 \<and>
   averageRating rated_recipe = fl (47 / 10) \<and>
   fl (47 / 10) = 5291729562160333 / 1125899906842624 \<and>
   ratings private_recipe = [] \<and>
   averageRating private_recipe = 0"
proof -
  have h1: "\<forall>e \<in> set (ratings rated_recipe). rating e \<in> {1, 2, 3, 4, 5}"
    by (simp add: rated_recipe_def)
  have h2: "length (ratings rated_recipe) < 2 ^ 40" by (simp add: rated_recipe_def)
  note t = averageRating_is_rounded_mean_of_whole_ratings [OF h1 h2]
  have e1: "map rating (ratings rated_recipe) = [5, 5, 4]" by (simp add: rated_recipe_def)
  have e2: "mean (map rating (ratings rated_recipe)) = 14 / 3" by (simp add: e1 mean_def)
  have e3: "round1 (14 / 3) = 47 / 10" by code_simp
  have e4: "fl (47 / 10) = 5291729562160333 / 1125899906842624" by code_simp
  have e5: "ratings private_recipe = []" by (simp add: private_recipe_def)
  have e6: "averageRating private_recipe = 0" by (simp add: averageRating_def e5)
  have "ratings rated_recipe \<noteq> []" by (simp add: rated_recipe_def)
  with t have "averageRating rated_recipe = fl (round1 (mean (map rating (ratings rated_recipe))))"
    by blast
  then have "averageRating rated_recipe = fl (47 / 10)" by (simp only: e2 e3)
  with h2 e1 e2 e3 e4 e5 e6 show ?thesis by blast
qed

text \<open>
  With a rating that is not a whole number the average need not be the rounded mean: the
  only rating of this recipe is the double of 1.15, which lies a little below 1.15, so
  the mean rounded to one decimal place is 1.1; its tenfold is rounded to the double 11.5,
  and the average is the double of 1.2.
\<close>

theorem averageRating_fractional_counterexample:
  "map rating (ratings fractional_recipe) = [fl (23 / 20)] \<and>
   mean (map rating (ratings fractional_recipe)) = 5179139571476070 / 4503599627370496 \<and>
   round1 (mean (map rating (ratings fractional_recipe))) = 11 / 10 \<and>
   averageRating fractional_recipe = fl (12 / 10) \<and>
   averageRating fractional_recipe \<noteq> fl (round1 (mean (map rating (ratings fractional_recipe)))) \<and>
   mean (map rating (ratings fractional_recipe)) + 1 / 20 < averageRating fractional_recipe"
  by code_simp

text \<open>
  The doubles of 1.2 and 1.9 add up to a double below 3.1, and the average is the double
  of 1.5, which is the rounded mean of the two doubles; the mean of the decimals 1.2 and
  1.9 themselves is 1.55 and rounds to 1.6.
\<close>

lemma averageRating_fractional_pair:
  "map rating (ratings fractional_pair_recipe) = [fl (6 / 5), fl (19 / 10)] \<and>
   averageRating fractional_pair_recipe = fl (15 / 10) \<and>
   round1 (mean (map rating (ratings fractional_pair_recipe))) = 15 / 10 \<and>
   round1 (mean [6 / 5, 19 / 10]) = 16 / 10"
  by code_simp

section \<open>Rating a recipe again\<close>

lemma find_SomeD: "find P xs = Some x \<Longrightarrow> x \<in> set xs \<and> P x"
  by (induction xs) (auto split: if_splits)

lemma find_updateFirst_const:
  "find P xs = Some x \<Longrightarrow> P y \<Longrightarrow> find P (updateFirst P (\<lambda>_. y) xs) = Some y"
  by (induction xs) (auto split: if_splits)

lemma findIndex_SomeD:
  "findIndex P xs = Some i \<Longrightarrow> i < length xs \<and> P (xs ! i) \<and> (\<forall>j < i. \<not> P (xs ! j))"
proof (induction xs arbitrary: i)
  case Nil
  then show ?case by simp
next
  case (Cons x xs)
  show ?case
  proof (cases "P x")
    case True
    with Cons.prems show ?thesis by simp
  next
    case False
    with Cons.prems obtain k where k: "findIndex P xs = Some k" "i = Suc k" by auto
    from Cons.IH [OF k(1)] False k(2) show ?thesis
      by (auto simp: nth_Cons split: nat.splits)
  qed
qed

lemma findIndex_None_iff: "findIndex P xs = None \<longleftrightarrow> (\<forall>x \<in> set xs. \<not> P x)"
  by (induction xs) auto

lemma findIndex_append_fresh:
  "\<forall>x \<in> set xs. \<not> P x \<Longrightarrow> P y \<Longrightarrow> findIndex P (xs @ [y]) = Some (length xs)"
  by (induction xs) simp_all

lemma map_userId_overwrite:
  "i < length rs \<Longrightarrow> map userId (rs[i := (rs ! i)\<lparr>rating := x\<rparr>]) = map userId rs"
  by (simp add: map_update list_update_same_conv)

lemma list_all_updateFirst:
  "list_all P xs \<Longrightarrow> P y \<Longrightarrow> list_all P (updateFirst Q (\<lambda>_. y) xs)"
  by (induction xs) auto

lemma recipes_Recipe_save:
  "recipes (Recipe_save r t) = updateFirst (\<lambda>x. recipe_id x = recipe_id r) (\<lambda>_. r) (recipes t)"
  by (simp add: Recipe_save_def)

text \<open>
  Whatever the store does with the notification, a call of rateRecipe keeps every recipe
  with at most one rating entry per user, and so does a sequence of calls.
\<close>

lemma rateRecipe_one_rating_per_user:
  assumes "one_rating_per_user s"
  shows "one_rating_per_user (snd (rateRecipe valid s u rid v now))"
proof (cases "\<exists>x r. v = Some x \<and> \<not> (x = 0 \<or> x < 1 \<or> x > 5) \<and> Recipe_findById s rid = Some r")
  case False
  then have "snd (rateRecipe valid s u rid v now) = s"
    by (auto simp: rateRecipe_def split: option.splits)
  with assms show ?thesis by simp
next
  case True
  then obtain x r where x: "v = Some x" "\<not> (x = 0 \<or> x < 1 \<or> x > 5)"
    and r: "Recipe_findById s rid = Some r" by blast
  have dr: "distinct (map userId (ratings r))"
    using assms r
    by (auto simp: one_rating_per_user_def Recipe_findById_def list_all_iff dest!: find_SomeD)
  define rs where "rs =
    (case findIndex (\<lambda>e. userId e = u) (ratings r) of
       None \<Rightarrow> ratings r @ [\<lparr>userId = u, rating = x, review = None, createdAt = now\<rparr>]
     | Some i \<Rightarrow> (ratings r)[i := (ratings r ! i)\<lparr>rating := x\<rparr>])"
  have d: "distinct (map userId rs)"
  proof (cases "findIndex (\<lambda>e. userId e = u) (ratings r)")
    case None
    then have "\<forall>e \<in> set (ratings r). userId e \<noteq> u"
      by (simp add: findIndex_None_iff)
    then show ?thesis using dr None by (auto simp: rs_def)
  next
    case (Some i)
    then have "i < length (ratings r)" by (auto dest: findIndex_SomeD)
    then show ?thesis using dr Some by (simp add: rs_def map_userId_overwrite)
  qed
  have "recipes (snd (rateRecipe valid s u rid v now)) = recipes s \<or>
        recipes (snd (rateRecipe valid s u rid v now)) =
          updateFirst (\<lambda>x. recipe_id x = recipe_id r) (\<lambda>_. r\<lparr>ratings := rs\<rparr>) (recipes s)"
    using x r
    by (auto simp: rateRecipe_def Let_def Notification_create_def recipes_Recipe_save rs_def
             split: option.splits)
  moreover have "list_all (\<lambda>r. distinct (map userId (ratings r)))
          (updateFirst (\<lambda>x. recipe_id x = recipe_id r) (\<lambda>_. r\<lparr>ratings := rs\<rparr>) (recipes s))"
    using assms d by (intro list_all_updateFirst) (simp_all add: one_rating_per_user_def)
  ultimately show ?thesis
    using assms by (auto simp: one_rating_per_user_def)
qed

lemma rateAll_one_rating_per_user:
  "one_rating_per_user s \<Longrightarrow> one_rating_per_user (rateAll valid s calls)"
proof (induction calls arbitrary: s)
  case Nil
  then show ?case by (simp add: rateAll_def)
next
  case (Cons c calls)
  obtain u rid v now where c: "c = (u, rid, v, now)" by (cases c) auto
  have "one_rating_per_user (snd (rateRecipe valid s u rid v now))"
    using Cons.prems by (rule rateRecipe_one_rating_per_user)
  from Cons.IH [OF this] show ?case
    by (simp add: rateAll_def c)
qed

lemma distinct_entries_of: "distinct (map userId rs) \<Longrightarrow> entries_of u rs \<le> 1"
proof (induction rs)
  case Nil
  then show ?case by (simp add: entries_of_def)
next
  case (Cons a rs)
  then have IH: "entries_of u rs \<le> 1" and nin: "userId a \<notin> userId ` set rs" by auto
  show ?case
  proof (cases "userId a = u")
    case True
    then have "filter (\<lambda>e. userId e = u) rs = []"
      using nin by (auto simp: filter_empty_conv image_iff)
    then show ?thesis using True by (simp add: entries_of_def)
  next
    case False
    then show ?thesis using IH by (simp add: entries_of_def)
  qed
qed

lemma rateAll_entries_of:
  assumes "one_rating_per_user s" and "r \<in> set (recipes (rateAll valid s calls))"
  shows "entries_of u (ratings r) \<le> 1"
proof -
  have "one_rating_per_user (rateAll valid s calls)"
    using assms(1) by (rule rateAll_one_rating_per_user)
  with assms(2) have "distinct (map userId (ratings r))"
    by (simp add: one_rating_per_user_def list_all_iff)
  then show ?thesis by (rule distinct_entries_of)
qed

lemma Recipe_findById_save:
  assumes "Recipe_findById s rid = Some r" "recipe_id r' = recipe_id r"
  shows "Recipe_findById (Recipe_save r' s) rid = Some r'"
proof -
  from assms(1) have id: "recipe_id r = rid"
    by (auto simp: Recipe_findById_def dest: find_SomeD)
  have "find (\<lambda>x. recipe_id x = rid) (updateFirst (\<lambda>x. recipe_id x = rid) (\<lambda>_. r') (recipes s)) = Some r'"
    using assms id by (intro find_updateFirst_const) (auto simp: Recipe_findById_def)
  then show ?thesis
    using assms(2) id by (simp add: Recipe_findById_def Recipe_save_def)
qed

lemma Recipe_findById_notifications [simp]:
  "Recipe_findById (t\<lparr>notifications := ns\<rparr>) rid = Recipe_findById t rid"
  by (simp add: Recipe_findById_def)

text \<open>A first rating that is answered is the new last entry of the list.\<close>

lemma rateRecipe_first:
  assumes r: "Recipe_findById s rid = Some r"
    and fresh: "findIndex (\<lambda>e. userId e = u) (ratings r) = None"
    and ok: "rateRecipe valid s u rid (Some x) now = (Inr resp, s')"
  shows "Recipe_findById s' rid =
           Some (r\<lparr>ratings := ratings r @
                   [\<lparr>userId = u, rating = x, review = None, createdAt = now\<rparr>]\<rparr>)"
    and "resp_totalRatings resp = length (ratings r) + 1"
proof -
  let ?r' = "r\<lparr>ratings := ratings r @ [\<lparr>userId = u, rating = x, review = None, createdAt = now\<rparr>]\<rparr>"
  have "(\<exists>ns. s' = Recipe_save ?r' (s\<lparr>notifications := ns\<rparr>)) \<or> s' = Recipe_save ?r' s"
    and resp: "resp_totalRatings resp = length (ratings r) + 1"
    using r fresh ok
    by (auto simp: rateRecipe_def Let_def Notification_create_def split: if_splits)
  then obtain t where t: "Recipe_findById t rid = Some r" and s': "s' = Recipe_save ?r' t"
    using r by (metis Recipe_findById_notifications)
  show "Recipe_findById s' rid = Some ?r'"
    unfolding s' using t by (rule Recipe_findById_save) simp
  show "resp_totalRatings resp = length (ratings r) + 1" by (rule resp)
qed

text \<open>
  A rating by a user who has an entry is answered: the value of the entry is overwritten
  at its index, and the entry keeps its user, its review and the time of its creation.
\<close>

lemma rateRecipe_again:
  assumes r: "Recipe_findById s rid = Some r"
    and i: "findIndex (\<lambda>e. userId e = u) (ratings r) = Some i"
    and x: "1 \<le> x" "x \<le> 5"
  shows "rateRecipe valid s u rid (Some x) now =
           (Inr \<lparr>resp_averageRating =
                    averageRating (r\<lparr>ratings := (ratings r)[i := (ratings r ! i)\<lparr>rating := x\<rparr>]\<rparr>),
                 resp_totalRatings = length (ratings r)\<rparr>,
            Recipe_save (r\<lparr>ratings := (ratings r)[i := (ratings r ! i)\<lparr>rating := x\<rparr>]\<rparr>) s)"
    and "Recipe_findById (snd (rateRecipe valid s u rid (Some x) now)) rid =
           Some (r\<lparr>ratings := (ratings r)[i := (ratings r ! i)\<lparr>rating := x\<rparr>]\<rparr>)"
proof -
  let ?r' = "r\<lparr>ratings := (ratings r)[i := (ratings r ! i)\<lparr>rating := x\<rparr>]\<rparr>"
  show c: "rateRecipe valid s u rid (Some x) now =
           (Inr \<lparr>resp_averageRating = averageRating ?r',
                 resp_totalRatings = length (ratings r)\<rparr>, Recipe_save ?r' s)"
    using r i x by (auto simp: rateRecipe_def Let_def)
  have "Recipe_findById (Recipe_save ?r' s) rid = Some ?r'"
    using r by (rule Recipe_findById_save) simp
  then show "Recipe_findById (snd (rateRecipe valid s u rid (Some x) now)) rid = Some ?r'"
    by (simp add: c)
qed

text \<open>
  As the route is mounted, the controller finds no rating in the body that the validation
  has left: every request is answered with a ValidationError and changes nothing.
\<close>

lemma route_rateRecipe_rejects:
  "\<exists>m. route_rateRecipe valid s u rid body now = (Inl (ValidationError m), s)"
proof (cases "rating_schema body")
  case (Inl details)
  then show ?thesis
    by (simp add: route_rateRecipe_def validateRating_def validate_def)
next
  case (Inr b)
  then have "read_rating b = None"
    by (auto simp: rating_schema_def Let_def split: option.splits if_splits)
  with Inr show ?thesis
    by (simp add: route_rateRecipe_def validateRating_def validate_def rateRecipe_def)
qed

text \<open>
  notificationSchema asks for a title, and no document of the controllers has one.
\<close>

lemma notificationSchema_untitled: "ntitle n = None \<Longrightarrow> \<not> notificationSchema n"
  by (simp add: notificationSchema_def)

lemma rateRecipe_first_answered:
  assumes "Recipe_findById s rid = Some r"
    and "findIndex (\<lambda>e. userId e = u) (ratings r) = None"
    and "1 \<le> x" "x \<le> 5" and "author r = u"
  shows "\<exists>resp s'. rateRecipe valid s u rid (Some x) now = (Inr resp, s')"
  using assms by (auto simp: rateRecipe_def Let_def)

lemma rateRecipe_first_rejected:
  assumes "Recipe_findById s rid = Some r"
    and "findIndex (\<lambda>e. userId e = u) (ratings r) = None"
    and "1 \<le> x" "x \<le> 5" and "author r \<noteq> u"
  shows "rateRecipe notificationSchema s u rid (Some x) now = (Inl StoreError, s)"
  using assms
  by (auto simp: rateRecipe_def Let_def Notification_create_def notificationSchema_untitled)

text \<open>
  C2. Let a user without an entry in the ratings of a recipe rate it with a value from 1
  to 5. The call is answered when the user wrote the recipe; for another user the
  notification comes first, and with notificationSchema the call ends in the error of the
  store and nothing is stored. When the call is answered, the entry is stored as the last
  of the list with the value and the time of the call, and a second call finds it there.
  The second call, with a value from 1 to 5, is answered too and overwrites the value of
  that entry in place: the list keeps its length and the user has exactly one entry. The
  time of the entry is not overwritten: it stays the time of the first call.
\<close>

theorem rating_again_keeps_createdAt:
  assumes r: "Recipe_findById s rid = Some r"
    and fresh: "findIndex (\<lambda>e. userId e = u) (ratings r) = None"
    and x: "1 \<le> x" "x \<le> 5" and y: "1 \<le> y" "y \<le> 5"
  shows "(author r = u \<longrightarrow>
            (\<exists>resp1 s1. rateRecipe valid s u rid (Some x) t1 = (Inr resp1, s1))) \<and>
         (author r \<noteq> u \<longrightarrow>
            rateRecipe notificationSchema s u rid (Some x) t1 = (Inl StoreError, s)) \<and>
         (\<forall>resp1 s1. rateRecipe valid s u rid (Some x) t1 = (Inr resp1, s1) \<longrightarrow>
            (\<exists>r1 r2 resp2 s2.
               Recipe_findById s1 rid = Some r1 \<and>
               ratings r1 =
                 ratings r @ [\<lparr>userId = u, rating = x, review = None, createdAt = t1\<rparr>] \<and>
               findIndex (\<lambda>e. userId e = u) (ratings r1) = Some (length (ratings r)) \<and>
               rateRecipe valid s1 u rid (Some y) t2 = (Inr resp2, s2) \<and>
               Recipe_findById s2 rid = Some r2 \<and>
               ratings r2 =
                 ratings r @ [\<lparr>userId = u, rating = y, review = None, createdAt = t1\<rparr>] \<and>
               resp_totalRatings resp2 = resp_totalRatings resp1 \<and>
               entries_of u (ratings r2) = 1))"
proof (intro conjI impI allI)
  assume "author r = u"
  with r fresh x show "\<exists>resp1 s1. rateRecipe valid s u rid (Some x) t1 = (Inr resp1, s1)"
    by (intro rateRecipe_first_answered)
next
  assume "author r \<noteq> u"
  with r fresh x show "rateRecipe notificationSchema s u rid (Some x) t1 = (Inl StoreError, s)"
    by (intro rateRecipe_first_rejected)
next
  fix resp1 s1
  assume first: "rateRecipe valid s u rid (Some x) t1 = (Inr resp1, s1)"
  let ?e = "\<lparr>userId = u, rating = x, review = None, createdAt = t1\<rparr>"
  let ?r1 = "r\<lparr>ratings := ratings r @ [?e]\<rparr>"
  let ?r2 = "?r1\<lparr>ratings := (ratings ?r1)[length (ratings r) :=
                                  (ratings ?r1 ! length (ratings r))\<lparr>rating := y\<rparr>]\<rparr>"
  have none: "\<forall>e \<in> set (ratings r). userId e \<noteq> u"
    using fresh by (simp add: findIndex_None_iff)
  have r1: "Recipe_findById s1 rid = Some ?r1"
    and n1: "resp_totalRatings resp1 = length (ratings r) + 1"
    using rateRecipe_first [OF r fresh first] by simp_all
  have i: "findIndex (\<lambda>e. userId e = u) (ratings ?r1) = Some (length (ratings r))"
    using none by (simp add: findIndex_append_fresh)
  have c2: "rateRecipe valid s1 u rid (Some y) t2 =
              (Inr \<lparr>resp_averageRating = averageRating ?r2,
                    resp_totalRatings = length (ratings ?r1)\<rparr>, Recipe_save ?r2 s1)"
    using rateRecipe_again(1) [OF r1 i y] .
  have f2: "Recipe_findById (Recipe_save ?r2 s1) rid = Some ?r2"
    using rateRecipe_again(2) [OF r1 i y, of valid t2] by (simp add: c2)
  have rs2: "ratings ?r2 =
               ratings r @ [\<lparr>userId = u, rating = y, review = None, createdAt = t1\<rparr>]"
    by simp
  have "filter (\<lambda>e. userId e = u) (ratings r) = []"
    using none by (simp add: filter_empty_conv)
  then have one: "entries_of u (ratings ?r2) = 1"
    by (simp add: entries_of_def)
  show "\<exists>r1 r2 resp2 s2.
               Recipe_findById s1 rid = Some r1 \<and>
               ratings r1 =
                 ratings r @ [\<lparr>userId = u, rating = x, review = None, createdAt = t1\<rparr>] \<and>
               findIndex (\<lambda>e. userId e = u) (ratings r1) = Some (length (ratings r)) \<and>
               rateRecipe valid s1 u rid (Some y) t2 = (Inr resp2, s2) \<and>
               Recipe_findById s2 rid = Some r2 \<and>
               ratings r2 =
                 ratings r @ [\<lparr>userId = u, rating = y, review = None, createdAt = t1\<rparr>] \<and>
               resp_totalRatings resp2 = resp_totalRatings resp1 \<and>
               entries_of u (ratings r2) = 1"
    using r1 i c2 f2 rs2 n1 one
    by (intro exI [of _ ?r1] exI [of _ ?r2]
              exI [of _ "\<lparr>resp_averageRating = averageRating ?r2,
                           resp_totalRatings = length (ratings ?r1)\<rparr>"]
              exI [of _ "Recipe_save ?r2 s1"]) simp
qed

theorem rating_again_keeps_createdAt_witness:
  "Recipe_findById example_db ''r2'' = Some private_recipe \<and>
   author private_recipe = ''bob'' \<and>
   findIndex (\<lambda>e. userId e = ''bob'') (ratings private_recipe) = None \<and>
   fst (rateRecipe notificationSchema example_db ''bob'' ''r2'' (Some 3) 11) =
     Inr \<lparr>resp_averageRating = 3, resp_totalRatings = 1\<rparr> \<and>
   map_option (\<lambda>r. map (\<lambda>e. (userId e, rating e, createdAt e)) (ratings r))
     (Recipe_findById
        (snd (rateRecipe notificationSchema example_db ''bob'' ''r2'' (Some 3) 11)) ''r2'') =
     Some [(''bob'', 3, 11)] \<and>
   map_option (\<lambda>r. map (\<lambda>e. (userId e, rating e, createdAt e)) (ratings r))
     (Recipe_findById
        (snd (rateRecipe notificationSchema
                (snd (rateRecipe notificationSchema example_db ''bob'' ''r2'' (Some 3) 11))
                ''bob'' ''r2'' (Some 4) 12)) ''r2'') =
     Some [(''bob'', 4, 11)] \<and>
   map_option (\<lambda>r. map (\<lambda>e. (userId e, rating e, createdAt e)) (ratings r))
     (Recipe_findById
        (snd (rateRecipe notificationSchema example_db ''bob'' ''r1'' (Some 2) 10)) ''r1'') =
     Some [(''alice'', 5, 1), (''bob'', 2, 2), (''carol'', 4, 3)] \<and>
   rateRecipe notificationSchema example_db ''carol'' ''r2'' (Some 3) 11 =
     (Inl StoreError, example_db) \<and>
   route_rateRecipe notificationSchema example_db ''bob'' ''r1''
       \<lparr>body_value = Some 2, body_review = None, body_rating = Some 2\<rparr> 10 =
     (Inl (ValidationError ''Rating must be between 1 and 5''), example_db)"
proof -
  have h1: "Recipe_findById example_db ''r2'' = Some private_recipe"
    by (simp add: Recipe_findById_def example_db_def rated_recipe_def private_recipe_def)
  have h2: "findIndex (\<lambda>e. userId e = ''bob'') (ratings private_recipe) = None"
    by (simp add: private_recipe_def)
  have h3: "author private_recipe = ''bob''" by (simp add: private_recipe_def)
  note t = rating_again_keeps_createdAt [OF h1 h2, of 3 4 notificationSchema 11 12]
  have e0: "fst (rateRecipe notificationSchema example_db ''bob'' ''r2'' (Some 3) 11) =
     Inr \<lparr>resp_averageRating = 3, resp_totalRatings = 1\<rparr>"
    by code_simp
  have e1: "map_option (\<lambda>r. map (\<lambda>e. (userId e, rating e, createdAt e)) (ratings r))
     (Recipe_findById
        (snd (rateRecipe notificationSchema example_db ''bob'' ''r2'' (Some 3) 11)) ''r2'') =
     Some [(''bob'', 3, 11)]"
    by code_simp
  have e2: "map_option (\<lambda>r. map (\<lambda>e. (userId e, rating e, createdAt e)) (ratings r))
     (Recipe_findById
        (snd (rateRecipe notificationSchema
                (snd (rateRecipe notificationSchema example_db ''bob'' ''r2'' (Some 3) 11))
                ''bob'' ''r2'' (Some 4) 12)) ''r2'') =
     Some [(''bob'', 4, 11)]"
    by code_simp
  have e3: "map_option (\<lambda>r. map (\<lambda>e. (userId e, rating e, createdAt e)) (ratings r))
     (Recipe_findById
        (snd (rateRecipe notificationSchema example_db ''bob'' ''r1'' (Some 2) 10)) ''r1'') =
     Some [(''alice'', 5, 1), (''bob'', 2, 2), (''carol'', 4, 3)]"
    by code_simp
  have e4: "rateRecipe notificationSchema example_db ''carol'' ''r2'' (Some 3) 11 =
     (Inl StoreError, example_db)"
    by code_simp
  have e5: "route_rateRecipe notificationSchema example_db ''bob'' ''r1''
       \<lparr>body_value = Some 2, body_review = None, body_rating = Some 2\<rparr> 10 =
     (Inl (ValidationError ''Rating must be between 1 and 5''), example_db)"
    by code_simp
  have "(1::rat) \<le> 3" "(3::rat) \<le> 5" "(1::rat) \<le> 4" "(4::rat) \<le> 5" by simp_all
  from t [OF this] h1 h2 h3 e0 e1 e2 e3 e4 e5 show ?thesis by blast
qed

section \<open>No notification to oneself\<close>

lemma notifies_others_refl [simp]: "notifies_others s s"
  by (simp add: notifies_others_def)

lemma notifies_others_trans:
  "notifies_others s t \<Longrightarrow> notifies_others t u \<Longrightarrow> notifies_others s u"
  by (auto simp: notifies_others_def)

lemma notifications_Recipe_save [simp]: "notifications (Recipe_save r t) = notifications t"
  by (simp add: Recipe_save_def)

lemma notifications_Comment_save [simp]: "notifications (Comment_save c t) = notifications t"
  by (simp add: Comment_save_def)

lemma Comment_findById_notifications [simp]:
  "Comment_findById (t\<lparr>notifications := ns\<rparr>) cid = Comment_findById t cid"
  by (simp add: Comment_findById_def)

lemma rateRecipe_notifies: "notifies_others s (snd (rateRecipe valid s u rid v now))"
  by (auto simp: rateRecipe_def Let_def Notification_create_def notifies_others_def
           split: option.splits)

lemma toggleLikeRecipe_notifies: "notifies_others s (snd (toggleLikeRecipe valid s u rid))"
  by (auto simp: toggleLikeRecipe_def Let_def Notification_create_def notifies_others_def
           split: option.splits)

lemma addComment_notifies:
  "notifies_others s (snd (addComment valid s u rid txt parent newId))"
  by (auto simp: addComment_def Let_def Notification_create_def notifies_others_def
           split: option.splits)

lemma deleteComment_notifies: "notifies_others s (snd (deleteComment s u cid))"
  by (auto simp: deleteComment_def Let_def notifies_others_def split: option.splits)

lemma likeComment_notifies: "notifies_others s (snd (likeComment valid s u cid))"
  by (auto simp: likeComment_def Let_def Notification_create_def notifies_others_def
           split: option.splits)

lemma unlikeComment_notifies: "notifies_others s (snd (unlikeComment s u cid))"
  by (auto simp: unlikeComment_def Let_def notifies_others_def split: option.splits)

lemma toggleCommentLike_notifies: "notifies_others s (snd (toggleCommentLike valid s u cid))"
  by (auto simp: toggleCommentLike_def Let_def Notification_create_def notifies_others_def
           split: option.splits)

lemma followUser_notifies: "notifies_others s (snd (followUser valid s u target))"
  by (auto simp: followUser_def Let_def Notification_create_def notifies_others_def
           split: option.splits)

lemma unfollowUser_notifies: "notifies_others s (snd (unfollowUser s u target))"
  by (auto simp: unfollowUser_def Let_def notifies_others_def split: option.splits)

lemma deleteRecipe_notifies: "notifies_others s (snd (deleteRecipe s u rid))"
  by (auto simp: deleteRecipe_def Let_def notifies_others_def split: option.splits)

lemma handle_notifies: "notifies_others s (handle valid s req)"
  by (cases req)
     (simp_all add: rateRecipe_notifies toggleLikeRecipe_notifies addComment_notifies
        deleteComment_notifies likeComment_notifies unlikeComment_notifies
        toggleCommentLike_notifies followUser_notifies unfollowUser_notifies
        deleteRecipe_notifies)

lemma run_notifies: "notifies_others s (run valid s reqs)"
proof (induction reqs arbitrary: s)
  case Nil
  show ?case by (simp add: run_def)
next
  case (Cons req reqs)
  have "notifies_others s (handle valid s req)" by (rule handle_notifies)
  moreover have "notifies_others (handle valid s req) (run valid (handle valid s req) reqs)"
    by (rule Cons.IH)
  ultimately show ?case
    unfolding run_def foldl_Cons [of "handle valid" s req reqs]
    by (rule notifies_others_trans)
qed

text \<open>
  C3. Whatever sequence of requests runs (rating, liking a recipe, commenting, replying,
  liking a comment, following, and the requests that create no notification), and
  whichever notifications the store accepts, every notification that the requests add to
  the store has a recipient other than its sender; so a store without a notification to
  oneself stays so.
\<close>

theorem no_notification_to_oneself:
  "notifies_others s (run valid s reqs) \<and>
   (no_self_notification s \<longrightarrow> no_self_notification (run valid s reqs))"
proof
  show n: "notifies_others s (run valid s reqs)" by (rule run_notifies)
  show "no_self_notification s \<longrightarrow> no_self_notification (run valid s reqs)"
    using n by (auto simp: notifies_others_def no_self_notification_def)
qed

theorem no_notification_to_oneself_witness:
  "no_self_notification example_db \<and>
   no_self_notification (run (\<lambda>n. True) example_db example_requests) \<and>
   map (\<lambda>n. (recipient n, sender n, ntype n))
     (notifications (run (\<lambda>n. True) example_db example_requests)) =
     [(''alice'', ''dave'', ''rating''), (''alice'', ''bob'', ''like''),
      (''alice'', ''bob'', ''comment''), (''alice'', ''bob'', ''reply''),
      (''alice'', ''bob'', ''like''), (''alice'', ''carol'', ''follow'')] \<and>
   notifications (run (\<lambda>n. False) example_db example_requests) = []"
proof -
  have h: "no_self_notification example_db"
    by (simp add: no_self_notification_def example_db_def)
  have e: "map (\<lambda>n. (recipient n, sender n, ntype n))
             (notifications (run (\<lambda>n. True) example_db example_requests)) =
     [(''alice'', ''dave'', ''rating''), (''alice'', ''bob'', ''like''),
      (''alice'', ''bob'', ''comment''), (''alice'', ''bob'', ''reply''),
      (''alice'', ''bob'', ''like''), (''alice'', ''carol'', ''follow'')]"
    by code_simp
  have e': "notifications (run (\<lambda>n. False) example_db example_requests) = []"
    by code_simp
  from no_notification_to_oneself [of example_db "\<lambda>n. True" example_requests] h e e'
  show ?thesis by blast
qed

section \<open>Toggling a like twice\<close>

lemma splice1_last: "splice1 (length xs) (xs @ [y]) = xs"
  by (simp add: splice1_def)

lemma length_splice1: "i < length xs \<Longrightarrow> length (splice1 i xs) = length xs - 1"
  by (simp add: splice1_def)

lemma set_splice1:
  assumes "distinct xs" "i < length xs"
  shows "set (splice1 i xs) = set xs - {xs ! i}" and "distinct (splice1 i xs)"
proof -
  have xs: "xs = take i xs @ xs ! i # drop (Suc i) xs"
    using assms(2) by (rule id_take_nth_drop)
  have d: "distinct (take i xs @ xs ! i # drop (Suc i) xs)"
    using assms(1) xs by simp
  have "set xs = set (take i xs) \<union> {xs ! i} \<union> set (drop (Suc i) xs)"
    by (subst xs) (simp only: set_append set_simps, blast)
  moreover have "xs ! i \<notin> set (take i xs)" "xs ! i \<notin> set (drop (Suc i) xs)"
    using d by (simp_all only: distinct_append distinct.simps, auto)
  ultimately show "set (splice1 i xs) = set xs - {xs ! i}"
    by (auto simp: splice1_def)
  show "distinct (splice1 i xs)"
    using d by (auto simp: splice1_def)
qed

lemma toggleLikeRecipe_Inr:
  assumes r: "Recipe_findById s rid = Some r"
    and ok: "toggleLikeRecipe valid s u rid = (Inr resp, s')"
  shows "\<exists>r'. Recipe_findById s' rid = Some r' \<and> recipe_id r' = recipe_id r \<and>
              author r' = author r \<and> resp_likesCount resp = length (likes r') \<and>
              (case findIndex (\<lambda>x. x = u) (likes r) of
                 Some i \<Rightarrow> likes r' = splice1 i (likes r) \<and> \<not> resp_isLiked resp
               | None \<Rightarrow> likes r' = likes r @ [u] \<and> resp_isLiked resp)"
proof (cases "findIndex (\<lambda>x. x = u) (likes r)")
  case (Some i)
  let ?r' = "r\<lparr>likes := splice1 i (likes r)\<rparr>"
  have s': "s' = Recipe_save ?r' s" and resp: "resp = \<lparr>resp_isLiked = False,
              resp_likesCount = length (likes ?r')\<rparr>"
    using r ok Some by (simp_all add: toggleLikeRecipe_def Let_def)
  have "Recipe_findById s' rid = Some ?r'"
    unfolding s' using r by (rule Recipe_findById_save) simp
  then show ?thesis using Some resp by (intro exI [of _ ?r']) simp
next
  case None
  let ?r' = "r\<lparr>likes := likes r @ [u]\<rparr>"
  have "(\<exists>ns. s' = Recipe_save ?r' (s\<lparr>notifications := ns\<rparr>)) \<or> s' = Recipe_save ?r' s"
    and resp: "resp = \<lparr>resp_isLiked = True, resp_likesCount = length (likes ?r')\<rparr>"
    using r ok None
    by (auto simp: toggleLikeRecipe_def Let_def Notification_create_def split: if_splits)
  then obtain t where t: "Recipe_findById t rid = Some r" and s': "s' = Recipe_save ?r' t"
    using r by (metis Recipe_findById_notifications)
  have "Recipe_findById s' rid = Some ?r'"
    unfolding s' using t by (rule Recipe_findById_save) simp
  then show ?thesis using None resp by (intro exI [of _ ?r']) simp
qed

lemma toggleLikeRecipe_accepted:
  assumes "\<forall>n. valid n" and "Recipe_findById s rid = Some r"
  shows "\<exists>resp s'. toggleLikeRecipe valid s u rid = (Inr resp, s')"
  using assms
  by (auto simp: toggleLikeRecipe_def Let_def Notification_create_def split: option.splits)

lemma toggleLikeRecipe_keeps_likes_distinct:
  assumes "list_all (\<lambda>r. distinct (likes r)) (recipes s)"
  shows "list_all (\<lambda>r. distinct (likes r)) (recipes (snd (toggleLikeRecipe valid s u rid)))"
proof (cases "Recipe_findById s rid")
  case None
  with assms show ?thesis by (simp add: toggleLikeRecipe_def)
next
  case (Some r)
  have dr: "distinct (likes r)"
    using assms Some by (auto simp: Recipe_findById_def list_all_iff dest!: find_SomeD)
  define ls where "ls =
    (case findIndex (\<lambda>x. x = u) (likes r) of
       None \<Rightarrow> likes r @ [u] | Some i \<Rightarrow> splice1 i (likes r))"
  have d: "distinct ls"
  proof (cases "findIndex (\<lambda>x. x = u) (likes r)")
    case None
    then have "\<forall>x \<in> set (likes r). x \<noteq> u" by (simp add: findIndex_None_iff)
    then show ?thesis using dr None by (auto simp: ls_def)
  next
    case (Some i)
    then have "i < length (likes r)" by (auto dest: findIndex_SomeD)
    then show ?thesis using dr Some by (simp add: ls_def set_splice1(2))
  qed
  have "recipes (snd (toggleLikeRecipe valid s u rid)) = recipes s \<or>
        recipes (snd (toggleLikeRecipe valid s u rid)) =
          updateFirst (\<lambda>x. recipe_id x = recipe_id r) (\<lambda>_. r\<lparr>likes := ls\<rparr>) (recipes s)"
    using Some
    by (auto simp: toggleLikeRecipe_def Let_def Notification_create_def recipes_Recipe_save
             ls_def split: option.splits)
  moreover have "list_all (\<lambda>r. distinct (likes r))
          (updateFirst (\<lambda>x. recipe_id x = recipe_id r) (\<lambda>_. r\<lparr>likes := ls\<rparr>) (recipes s))"
    using assms d by (intro list_all_updateFirst) simp_all
  ultimately show ?thesis using assms by auto
qed

text \<open>
  Two calls in succession that are both answered leave the recipe with the users it had in
  its like list and with its likesCount.
\<close>

lemma toggleLikeRecipe_twice_answered:
  assumes r: "Recipe_findById s rid = Some r" and d: "distinct (likes r)"
    and c1: "toggleLikeRecipe valid s u rid = (Inr resp1, s1)"
    and c2: "toggleLikeRecipe valid s1 u rid = (Inr resp2, s2)"
  shows "\<exists>r2. Recipe_findById s2 rid = Some r2 \<and>
              set (likes r2) = set (likes r) \<and>
              likesCount r2 = likesCount r \<and>
              resp_likesCount resp2 = likesCount r \<and>
              resp_isLiked resp1 = (u \<notin> set (likes r)) \<and>
              resp_isLiked resp2 = (u \<in> set (likes r))"
proof -
  from toggleLikeRecipe_Inr [OF r c1] obtain r1 where
    r1: "Recipe_findById s1 rid = Some r1"
    and l1: "case findIndex (\<lambda>x. x = u) (likes r) of
               Some i \<Rightarrow> likes r1 = splice1 i (likes r) \<and> \<not> resp_isLiked resp1
             | None \<Rightarrow> likes r1 = likes r @ [u] \<and> resp_isLiked resp1"
    by blast
  from toggleLikeRecipe_Inr [OF r1 c2] obtain r2 where
    r2: "Recipe_findById s2 rid = Some r2" and n2: "resp_likesCount resp2 = length (likes r2)"
    and l2: "case findIndex (\<lambda>x. x = u) (likes r1) of
               Some i \<Rightarrow> likes r2 = splice1 i (likes r1) \<and> \<not> resp_isLiked resp2
             | None \<Rightarrow> likes r2 = likes r1 @ [u] \<and> resp_isLiked resp2"
    by blast
  show ?thesis
  proof (cases "findIndex (\<lambda>x. x = u) (likes r)")
    case None
    then have fresh: "\<forall>x \<in> set (likes r). x \<noteq> u" by (simp add: findIndex_None_iff)
    from l1 None have lr1: "likes r1 = likes r @ [u]" and i1: "resp_isLiked resp1" by simp_all
    have "findIndex (\<lambda>x. x = u) (likes r1) = Some (length (likes r))"
      unfolding lr1 using fresh by (simp add: findIndex_append_fresh)
    with l2 have "likes r2 = splice1 (length (likes r)) (likes r1)" and "\<not> resp_isLiked resp2"
      by simp_all
    then have "likes r2 = likes r" and "\<not> resp_isLiked resp2"
      by (simp_all add: lr1 splice1_last)
    then show ?thesis
      using r2 n2 i1 fresh by (auto simp: likesCount_def)
  next
    case (Some i)
    then have i: "i < length (likes r)" and ui: "likes r ! i = u"
      by (auto dest: findIndex_SomeD)
    from l1 Some have lr1: "likes r1 = splice1 i (likes r)" and i1: "\<not> resp_isLiked resp1"
      by simp_all
    have gone: "set (likes r1) = set (likes r) - {u}"
      unfolding lr1 using set_splice1(1) [OF d i] ui by simp
    then have "findIndex (\<lambda>x. x = u) (likes r1) = None"
      by (simp add: findIndex_None_iff)
    with l2 have lr2: "likes r2 = likes r1 @ [u]" and i2: "resp_isLiked resp2" by simp_all
    have mem: "u \<in> set (likes r)" using i ui by (metis nth_mem)
    have "set (likes r2) = set (likes r)" using gone mem by (auto simp: lr2)
    moreover have "length (likes r2) = length (likes r)"
      using i by (simp add: lr2 lr1 length_splice1)
    ultimately show ?thesis
      using r2 n2 i1 i2 mem by (auto simp: likesCount_def)
  qed
qed

text \<open>The author of a recipe is not notified, so a toggle of the author is answered.\<close>

lemma toggleLikeRecipe_author:
  assumes "Recipe_findById s rid = Some r" and "author r = u"
  shows "\<exists>resp s'. toggleLikeRecipe valid s u rid = (Inr resp, s')"
  using assms by (auto simp: toggleLikeRecipe_def Let_def split: option.splits)

text \<open>
  With notificationSchema a like of another user ends in the error of the store before
  the recipe is saved; the removal of a like asks for no notification and is answered.
\<close>

lemma toggleLikeRecipe_like_rejected:
  assumes "Recipe_findById s rid = Some r" and "author r \<noteq> u" and "u \<notin> set (likes r)"
  shows "toggleLikeRecipe notificationSchema s u rid = (Inl StoreError, s)"
proof -
  from assms(3) have "findIndex (\<lambda>x. x = u) (likes r) = None"
    by (auto simp: findIndex_None_iff)
  with assms(1,2) show ?thesis
    by (simp add: toggleLikeRecipe_def Let_def Notification_create_def
          notificationSchema_untitled)
qed

lemma toggleLikeRecipe_unlike:
  assumes r: "Recipe_findById s rid = Some r" and d: "distinct (likes r)"
    and liked: "u \<in> set (likes r)"
  shows "\<exists>resp1 s1 r1.
           toggleLikeRecipe valid s u rid = (Inr resp1, s1) \<and> \<not> resp_isLiked resp1 \<and>
           Recipe_findById s1 rid = Some r1 \<and> author r1 = author r \<and>
           set (likes r1) = set (likes r) - {u} \<and> likesCount r1 + 1 = likesCount r"
proof -
  from liked obtain i where i: "findIndex (\<lambda>x. x = u) (likes r) = Some i"
    by (cases "findIndex (\<lambda>x. x = u) (likes r)") (auto simp: findIndex_None_iff)
  then have il: "i < length (likes r)" and ui: "likes r ! i = u"
    by (auto dest: findIndex_SomeD)
  let ?r1 = "r\<lparr>likes := splice1 i (likes r)\<rparr>"
  have c: "toggleLikeRecipe valid s u rid =
             (Inr \<lparr>resp_isLiked = False, resp_likesCount = length (likes ?r1)\<rparr>,
              Recipe_save ?r1 s)"
    using r i by (simp add: toggleLikeRecipe_def Let_def)
  have f: "Recipe_findById (Recipe_save ?r1 s) rid = Some ?r1"
    using r by (rule Recipe_findById_save) simp
  have g: "set (likes ?r1) = set (likes r) - {u}"
    using set_splice1(1) [OF d il] ui by simp
  have n: "likesCount ?r1 + 1 = likesCount r"
    using il by (simp add: likesCount_def length_splice1)
  show ?thesis
    using c f g n
    by (intro exI [of _ "\<lparr>resp_isLiked = False, resp_likesCount = length (likes ?r1)\<rparr>"]
              exI [of _ "Recipe_save ?r1 s"] exI [of _ ?r1]) simp
qed

text \<open>
  C4. Two calls of toggleLikeRecipe in succession by the same user, on a recipe of the
  store whose like list holds no user twice, with the notification validated against
  notificationSchema. When the user wrote the recipe, both calls are answered and the
  recipe has again the users it had in its like list and its likesCount. When another user
  had liked the recipe, the first call removes the like and the second call ends in the
  error of the store before the recipe is saved: after the two calls the like is gone
  and likesCount is one less. When another user had not liked the recipe, the first call
  ends in that error and the store is unchanged.
\<close>

theorem toggleLike_twice_loses_like:
  assumes r: "Recipe_findById s rid = Some r" and d: "distinct (likes r)"
  shows "(author r = u \<longrightarrow>
            (\<exists>resp1 s1 resp2 s2 r2.
               toggleLikeRecipe notificationSchema s u rid = (Inr resp1, s1) \<and>
               toggleLikeRecipe notificationSchema s1 u rid = (Inr resp2, s2) \<and>
               Recipe_findById s2 rid = Some r2 \<and>
               set (likes r2) = set (likes r) \<and> likesCount r2 = likesCount r)) \<and>
         (author r \<noteq> u \<and> u \<in> set (likes r) \<longrightarrow>
            (\<exists>resp1 s1 r1.
               toggleLikeRecipe notificationSchema s u rid = (Inr resp1, s1) \<and>
               toggleLikeRecipe notificationSchema s1 u rid = (Inl StoreError, s1) \<and>
               Recipe_findById s1 rid = Some r1 \<and>
               set (likes r1) = set (likes r) - {u} \<and>
               likesCount r1 + 1 = likesCount r)) \<and>
         (author r \<noteq> u \<and> u \<notin> set (likes r) \<longrightarrow>
            toggleLikeRecipe notificationSchema s u rid = (Inl StoreError, s))"
proof (intro conjI impI)
  assume a: "author r = u"
  from toggleLikeRecipe_author [OF r a] obtain resp1 s1 where
    c1: "toggleLikeRecipe notificationSchema s u rid = (Inr resp1, s1)" by blast
  from toggleLikeRecipe_Inr [OF r c1] obtain r1 where
    r1: "Recipe_findById s1 rid = Some r1" and a1: "author r1 = author r" by blast
  from a a1 have "author r1 = u" by simp
  from toggleLikeRecipe_author [OF r1 this] obtain resp2 s2 where
    c2: "toggleLikeRecipe notificationSchema s1 u rid = (Inr resp2, s2)" by blast
  from toggleLikeRecipe_twice_answered [OF r d c1 c2] obtain r2 where
    r2: "Recipe_findById s2 rid = Some r2" "set (likes r2) = set (likes r)"
      "likesCount r2 = likesCount r"
    by blast
  show "\<exists>resp1 s1 resp2 s2 r2.
               toggleLikeRecipe notificationSchema s u rid = (Inr resp1, s1) \<and>
               toggleLikeRecipe notificationSchema s1 u rid = (Inr resp2, s2) \<and>
               Recipe_findById s2 rid = Some r2 \<and>
               set (likes r2) = set (likes r) \<and> likesCount r2 = likesCount r"
    by (intro exI [of _ resp1] exI [of _ s1] exI [of _ resp2] exI [of _ s2] exI [of _ r2]
              conjI c1 c2 r2)
next
  assume h: "author r \<noteq> u \<and> u \<in> set (likes r)"
  from toggleLikeRecipe_unlike [OF r d] h obtain resp1 s1 r1 where
    c1: "toggleLikeRecipe notificationSchema s u rid = (Inr resp1, s1)"
    and r1: "Recipe_findById s1 rid = Some r1" and a1: "author r1 = author r"
    and g: "set (likes r1) = set (likes r) - {u}" and n: "likesCount r1 + 1 = likesCount r"
    by blast
  have "author r1 \<noteq> u" "u \<notin> set (likes r1)" using h a1 g by simp_all
  then have "toggleLikeRecipe notificationSchema s1 u rid = (Inl StoreError, s1)"
    by (rule toggleLikeRecipe_like_rejected [OF r1])
  then show "\<exists>resp1 s1 r1.
               toggleLikeRecipe notificationSchema s u rid = (Inr resp1, s1) \<and>
               toggleLikeRecipe notificationSchema s1 u rid = (Inl StoreError, s1) \<and>
               Recipe_findById s1 rid = Some r1 \<and>
               set (likes r1) = set (likes r) - {u} \<and>
               likesCount r1 + 1 = likesCount r"
    by (intro exI [of _ resp1] exI [of _ s1] exI [of _ r1] conjI c1 r1 g n)
next
  assume "author r \<noteq> u \<and> u \<notin> set (likes r)"
  then have "author r \<noteq> u" "u \<notin> set (likes r)" by simp_all
  then show "toggleLikeRecipe notificationSchema s u rid = (Inl StoreError, s)"
    by (rule toggleLikeRecipe_like_rejected [OF r])
qed

theorem toggleLike_twice_loses_like_witness:
  "Recipe_findById example_db ''r1'' = Some rated_recipe \<and>
   distinct (likes rated_recipe) \<and>
   author rated_recipe = ''alice'' \<and>
   likes rated_recipe = [''carol''] \<and>
   fst (toggleLikeRecipe notificationSchema example_db ''carol'' ''r1'') =
     Inr \<lparr>resp_isLiked = False, resp_likesCount = 0\<rparr> \<and>
   toggleLikeRecipe notificationSchema
       (snd (toggleLikeRecipe notificationSchema example_db ''carol'' ''r1'')) ''carol'' ''r1'' =
     (Inl StoreError, snd (toggleLikeRecipe notificationSchema example_db ''carol'' ''r1'')) \<and>
   map_option likes
     (Recipe_findById
        (snd (toggleLikeRecipe notificationSchema
                (snd (toggleLikeRecipe notificationSchema example_db ''carol'' ''r1''))
                ''carol'' ''r1'')) ''r1'') = Some [] \<and>
   map_option likes
     (Recipe_findById
        (snd (toggleLikeRecipe notificationSchema
                (snd (toggleLikeRecipe notificationSchema example_db ''alice'' ''r1''))
                ''alice'' ''r1'')) ''r1'') = Some [''carol''] \<and>
   toggleLikeRecipe notificationSchema example_db ''bob'' ''r1'' = (Inl StoreError, example_db)"
proof -
  have h1: "Recipe_findById example_db ''r1'' = Some rated_recipe"
    by (simp add: Recipe_findById_def example_db_def rated_recipe_def)
  have h2: "distinct (likes rated_recipe)" "likes rated_recipe = [''carol'']"
    "author rated_recipe = ''alice''"
    by (simp_all add: rated_recipe_def)
  note t = toggleLike_twice_loses_like [OF h1 h2(1), of "''carol''"]
  have e1: "fst (toggleLikeRecipe notificationSchema example_db ''carol'' ''r1'') =
     Inr \<lparr>resp_isLiked = False, resp_likesCount = 0\<rparr>"
    by code_simp
  have e2: "toggleLikeRecipe notificationSchema
       (snd (toggleLikeRecipe notificationSchema example_db ''carol'' ''r1'')) ''carol'' ''r1'' =
     (Inl StoreError, snd (toggleLikeRecipe notificationSchema example_db ''carol'' ''r1''))"
    by code_simp
  have e3: "map_option likes
     (Recipe_findById
        (snd (toggleLikeRecipe notificationSchema
                (snd (toggleLikeRecipe notificationSchema example_db ''carol'' ''r1''))
                ''carol'' ''r1'')) ''r1'') = Some []"
    by code_simp
  have e4: "map_option likes
     (Recipe_findById
        (snd (toggleLikeRecipe notificationSchema
                (snd (toggleLikeRecipe notificationSchema example_db ''alice'' ''r1''))
                ''alice'' ''r1'')) ''r1'') = Some [''carol'']"
    by code_simp
  have e5: "toggleLikeRecipe notificationSchema example_db ''bob'' ''r1'' =
     (Inl StoreError, example_db)"
    by code_simp
  from t h1 h2 e1 e2 e3 e4 e5 show ?thesis by blast
qed

section \<open>Visibility in discovery\<close>

lemma search_filter_published:
  "matches e (buildSearchFilter e q) r \<Longrightarrow> isPublished r"
  by (simp add: matches_def buildSearchFilter_def)

lemma empty_query_filter:
  "matches e (buildSearchFilter e empty_query) r = isPublished r"
  by (simp add: matches_def buildSearchFilter_def empty_query_def truthy_def)

text \<open>
  C5. Discovery is meant to return only recipes that are both published and public. The
  search filter and the category listing ask for \<^verbatim>\<open>isPublished\<close> only: for a query
  without parameters the published recipe \<open>r2\<close>, which is not public, matches the filter,
  is returned and counted by getAllRecipes, and its cuisine and tag are listed by
  getCategories.
\<close>

theorem discovery_lists_private_recipe:
  "isPublic private_recipe = False \<and>
   matches example_env (buildSearchFilter example_env empty_query) private_recipe \<and>
   map (\<lambda>r. (recipe_id r, isPublished r, isPublic r))
     (resp_recipes (getAllRecipes example_env example_db empty_query)) =
     [(''r1'', True, True), (''r2'', True, False)] \<and>
   total (resp_pagination (getAllRecipes example_env example_db empty_query)) = 2 \<and>
   cat_cuisineTypes (getCategories example_db) = [''French'', ''Mexican''] \<and>
   cat_tags (getCategories example_db) = [''family'']"
  by code_simp

section \<open>Pagination\<close>

lemma parseInt_or_nonzero: "d \<noteq> 0 \<Longrightarrow> parseInt_or e v d \<noteq> 0"
  by (simp add: parseInt_or_def split: option.splits jsint.splits)

lemma ceiling_pages:
  fixes t l :: int
  assumes "0 < l"
  shows "(\<lceil>rat_of_int t / rat_of_int l\<rceil> - 1) * l < t \<and> t \<le> \<lceil>rat_of_int t / rat_of_int l\<rceil> * l"
proof -
  let ?n = "\<lceil>rat_of_int t / rat_of_int l\<rceil>"
  have l: "0 < rat_of_int l" using assms by simp
  have "rat_of_int t / rat_of_int l \<le> of_int ?n" by (rule le_of_int_ceiling)
  then have "rat_of_int t \<le> of_int ?n * rat_of_int l"
    by (simp only: pos_divide_le_eq [OF l])
  then have "rat_of_int t \<le> rat_of_int (?n * l)" by simp
  then have up: "t \<le> ?n * l" by (simp only: of_int_le_iff)
  have "of_int ?n - 1 < rat_of_int t / rat_of_int l"
    using ceiling_correct [of "rat_of_int t / rat_of_int l"] by simp
  then have "(of_int ?n - 1) * rat_of_int l < rat_of_int t"
    by (simp only: pos_less_divide_eq [OF l])
  then have "rat_of_int ((?n - 1) * l) < rat_of_int t" by simp
  then have lo: "(?n - 1) * l < t" by (simp only: of_int_less_iff)
  from lo up show ?thesis by blast
qed

text \<open>
  C9. In the pagination object that getAllRecipes returns, \<open>total\<close> is the number of
  recipes that match the filter, the page size is never 0, \<open>totalPages\<close> is the ceiling
  of \<open>total / limit\<close>, and \<open>hasNextPage\<close> holds exactly when \<open>page < totalPages\<close>. For a
  positive page size, \<open>totalPages\<close> is the least number of pages that hold \<open>total\<close> items.
\<close>

theorem pagination_totalPages:
  "(let p = resp_pagination (getAllRecipes e s q) in
     limit p \<noteq> 0 \<and>
     total p = int (length (filter (matches e (buildSearchFilter e q)) (recipes s))) \<and>
     totalPages p = \<lceil>rat_of_int (total p) / rat_of_int (limit p)\<rceil> \<and>
     hasNextPage p = (page p < totalPages p) \<and>
     (0 < limit p \<longrightarrow> (totalPages p - 1) * limit p < total p \<and> total p \<le> totalPages p * limit p))"
proof -
  have nz: "parseInt_or e (q_limit q) 10 \<noteq> 0" by (rule parseInt_or_nonzero) simp
  show ?thesis
    using nz ceiling_pages [of "parseInt_or e (q_limit q) 10"
        "int (length (filter (matches e (buildSearchFilter e q)) (recipes s)))"]
    by (simp add: getAllRecipes_def Let_def Math_ceil_def)
qed

theorem pagination_totalPages_witness:
  "resp_pagination (getAllRecipes example_env example_db empty_query) =
     \<lparr>page = 1, limit = 10, total = 2, totalPages = 1,
      hasNextPage = False, hasPrevPage = False\<rparr> \<and>
   resp_pagination (getAllRecipes example_env example_db one_per_page_query) =
     \<lparr>page = 1, limit = 1, total = 2, totalPages = 2,
      hasNextPage = True, hasPrevPage = False\<rparr> \<and>
   0 < limit (resp_pagination (getAllRecipes example_env example_db one_per_page_query))"
proof -
  note t = pagination_totalPages [of example_env example_db one_per_page_query]
  have e1: "resp_pagination (getAllRecipes example_env example_db empty_query) =
     \<lparr>page = 1, limit = 10, total = 2, totalPages = 1,
      hasNextPage = False, hasPrevPage = False\<rparr>"
    by code_simp
  have e2: "resp_pagination (getAllRecipes example_env example_db one_per_page_query) =
     \<lparr>page = 1, limit = 1, total = 2, totalPages = 2,
      hasNextPage = True, hasPrevPage = False\<rparr>"
    by code_simp
  have e3: "0 < limit (resp_pagination (getAllRecipes example_env example_db one_per_page_query))"
    by (simp add: e2)
  from t e1 e2 e3 show ?thesis by blast
qed

section \<open>Replies\<close>

lemma find_append_Some: "find P xs = Some x \<Longrightarrow> find P (xs @ ys) = Some x"
  by (induction xs) (auto split: if_splits)

lemma Comment_findById_appended:
  "Comment_findById s pid = Some p \<Longrightarrow>
     Comment_findById (s\<lparr>comments := comments s @ [c]\<rparr>) pid = Some p"
  by (simp add: Comment_findById_def find_append_Some)





lemma User_findById_comments [simp]:
  "User_findById (t\<lparr>comments := cs\<rparr>) uid = User_findById t uid"
  by (simp add: User_findById_def)

lemma User_findById_notifications [simp]:
  "User_findById (t\<lparr>notifications := ns\<rparr>) uid = User_findById t uid"
  by (simp add: User_findById_def)





section \<open>Following twice\<close>

text \<open>
  C7. When the target is already in the following list of the current user, followUser
  fails and returns the store as it was: no following or followers list changes and no
  notification is created. The error is never a ConflictError; for a target other than
  the current user that exists, it is the ValidationError
  \<^verbatim>\<open>You are already following this user\<close>.
\<close>

theorem follow_again_rejected:
  assumes "User_findById s u = Some cu" and "target \<in> set (following cu)"
  shows "snd (followUser valid s u target) = s \<and>
         (\<exists>e. fst (followUser valid s u target) = Inl e \<and> (\<forall>m. e \<noteq> ConflictError m)) \<and>
         (u \<noteq> target \<and> User_findById s target \<noteq> None \<longrightarrow>
            fst (followUser valid s u target) =
              Inl (ValidationError ''You are already following this user''))"
  using assms by (auto simp: followUser_def split: option.splits)

theorem follow_again_rejected_witness:
  "map_option following (User_findById example_db ''alice'') = Some [''bob''] \<and>
   ''bob'' \<in> set [''bob''] \<and>
   ''alice'' \<noteq> ''bob'' \<and>
   map_option user_id (User_findById example_db ''bob'') = Some ''bob'' \<and>
   followUser (\<lambda>n. True) example_db ''alice'' ''bob'' =
     (Inl (ValidationError ''You are already following this user''), example_db)"
proof -
  have h1: "User_findById example_db ''alice'' =
      Some \<lparr>user_id = ''alice'', username = ''alice'', following = [''bob''],
            followers = [], favoriteRecipes = []\<rparr>"
    by (simp add: User_findById_def example_db_def)
  have h2: "''bob'' \<in> set (following \<lparr>user_id = ''alice'', username = ''alice'',
              following = [''bob''], followers = [], favoriteRecipes = []\<rparr>)"
    by simp
  note t = follow_again_rejected [OF h1 h2, of "\<lambda>n. True"]
  have e: "User_findById example_db ''bob'' \<noteq> None" "(''alice''::string) \<noteq> ''bob''"
    by (simp_all add: User_findById_def example_db_def)
  have e2: "map_option user_id (User_findById example_db ''bob'') = Some ''bob''"
    by (simp add: User_findById_def example_db_def)
  from t e have "followUser (\<lambda>n. True) example_db ''alice'' ''bob'' =
     (Inl (ValidationError ''You are already following this user''), example_db)"
    by (metis prod.collapse)
  with h1 e e2 show ?thesis by simp
qed

text \<open>
  \<open>alice\<close> follows \<open>bob\<close> already; following again is a ValidationError, not a
  ConflictError.
\<close>

theorem follow_again_counterexample:
  "map_option following (User_findById example_db ''alice'') = Some [''bob''] \<and>
   followUser (\<lambda>n. True) example_db ''alice'' ''bob'' =
     (Inl (ValidationError ''You are already following this user''), example_db) \<and>
   fst (followUser (\<lambda>n. True) example_db ''alice'' ''bob'') \<noteq>
     Inl (ConflictError ''You are already following this user'')"
  by (simp add: followUser_def User_findById_def example_db_def)

section \<open>Deleting a comment\<close>

lemma set_deleteFirst: "set (deleteFirst P xs) \<subseteq> set xs"
  by (induction xs) auto

lemma deleteFirst_keeps: "x \<in> set xs \<Longrightarrow> \<not> P x \<Longrightarrow> x \<in> set (deleteFirst P xs)"
  by (induction xs) auto

lemma find_deleteFirst_distinct:
  "distinct (map f xs) \<Longrightarrow> find (\<lambda>x. f x = a) (deleteFirst (\<lambda>x. f x = a) xs) = None"
  by (induction xs) (auto simp: find_None_iff image_iff)

lemma map_deleteMany_sub: "distinct (map f xs) \<Longrightarrow> distinct (map f (deleteMany P xs))"
  by (simp add: deleteMany_def distinct_map_filter)

text \<open>
  C8. After deleteComment has succeeded, no comment of the store has the deleted comment
  as its parent, so the query for its replies is empty. Nothing else is removed: a comment
  that is neither the deleted one nor one of its replies is kept, and with unique comment
  ids the deleted comment is no longer found.
\<close>

theorem deleteComment_removes_replies:
  assumes "deleteComment s u cid = (Inr msg, s')"
  shows "findReplies s' cid = [] \<and>
         (\<forall>c \<in> set (comments s'). parentComment c \<noteq> Some cid) \<and>
         set (comments s') \<subseteq> set (comments s) \<and>
         (\<forall>c \<in> set (comments s). comment_id c \<noteq> cid \<and> parentComment c \<noteq> Some cid
             \<longrightarrow> c \<in> set (comments s')) \<and>
         (distinct (map comment_id (comments s)) \<longrightarrow> Comment_findById s' cid = None) \<and>
         users s' = users s \<and> recipes s' = recipes s \<and> notifications s' = notifications s"
proof -
  let ?kept = "deleteMany (\<lambda>x. parentComment x = Some cid) (comments s)"
  from assms have s': "s' = s\<lparr>comments := deleteFirst (\<lambda>x. comment_id x = cid) ?kept\<rparr>"
    by (auto simp: deleteComment_def Let_def split: option.splits if_splits)
  have sub: "set (comments s') \<subseteq> set ?kept"
    unfolding s' using set_deleteFirst [of "\<lambda>x. comment_id x = cid" ?kept] by simp
  have kept: "set ?kept = {c \<in> set (comments s). parentComment c \<noteq> Some cid}"
    by (auto simp: deleteMany_def)
  have none: "\<forall>c \<in> set (comments s'). parentComment c \<noteq> Some cid"
    using sub kept by blast
  then have "findReplies s' cid = []"
    by (simp add: findReplies_def filter_empty_conv)
  moreover have "set (comments s') \<subseteq> set (comments s)"
    using sub kept by blast
  moreover have "\<forall>c \<in> set (comments s). comment_id c \<noteq> cid \<and> parentComment c \<noteq> Some cid
             \<longrightarrow> c \<in> set (comments s')"
    unfolding s' using kept by (auto intro!: deleteFirst_keeps)
  moreover have "distinct (map comment_id (comments s)) \<longrightarrow> Comment_findById s' cid = None"
    unfolding s' by (auto simp: Comment_findById_def intro!: find_deleteFirst_distinct map_deleteMany_sub)
  moreover have "users s' = users s \<and> recipes s' = recipes s \<and> notifications s' = notifications s"
    unfolding s' by simp
  ultimately show ?thesis using none by blast
qed

theorem deleteComment_removes_replies_witness:
  "deleteComment example_db ''alice'' ''c1'' =
     (Inr ''Comment deleted successfully'', example_db\<lparr>comments := [other_comment]\<rparr>) \<and>
   map comment_id (findReplies example_db ''c1'') = [''c2''] \<and>
   findReplies (example_db\<lparr>comments := [other_comment]\<rparr>) ''c1'' = [] \<and>
   distinct (map comment_id (comments example_db)) \<and>
   Comment_findById (example_db\<lparr>comments := [other_comment]\<rparr>) ''c1'' = None"
proof -
  have h: "deleteComment example_db ''alice'' ''c1'' =
     (Inr ''Comment deleted successfully'', example_db\<lparr>comments := [other_comment]\<rparr>)"
    by (simp add: deleteComment_def Comment_findById_def deleteMany_def example_db_def
          root_comment_def reply_comment_def other_comment_def)
  note t = deleteComment_removes_replies [OF h]
  have e1: "map comment_id (findReplies example_db ''c1'') = [''c2'']"
    by (simp add: findReplies_def example_db_def root_comment_def reply_comment_def
          other_comment_def)
  have e2: "distinct (map comment_id (comments example_db))"
    by (simp add: example_db_def root_comment_def reply_comment_def other_comment_def)
  from t h e1 e2 show ?thesis by blast
qed

section \<open>Deleting a recipe\<close>

lemma set_pull: "set (pull x xs) = set xs - {x}"
  by (auto simp: pull_def)

text \<open>
  C10. After deleteRecipe has succeeded, no comment of the store belongs to the deleted
  recipe and no user has its id among the favorite recipes; the comments of other recipes
  and all other favorites are kept, and with unique recipe ids the recipe is no longer
  found.
\<close>

theorem deleteRecipe_cascades:
  assumes "deleteRecipe s u rid = (Inr msg, s')"
  shows "(\<forall>c \<in> set (comments s'). comment_recipe c \<noteq> rid) \<and>
         (\<forall>c \<in> set (comments s). comment_recipe c \<noteq> rid \<longrightarrow> c \<in> set (comments s')) \<and>
         (\<forall>x \<in> set (users s'). rid \<notin> set (favoriteRecipes x)) \<and>
         map user_id (users s') = map user_id (users s) \<and>
         map (\<lambda>x. set (favoriteRecipes x)) (users s') =
           map (\<lambda>x. set (favoriteRecipes x) - {rid}) (users s) \<and>
         recipes s' = deleteFirst (\<lambda>x. recipe_id x = rid) (recipes s) \<and>
         (distinct (map recipe_id (recipes s)) \<longrightarrow> Recipe_findById s' rid = None) \<and>
         notifications s' = notifications s"
proof -
  let ?f = "\<lambda>x. if rid \<in> set (favoriteRecipes x)
                 then x\<lparr>favoriteRecipes := pull rid (favoriteRecipes x)\<rparr> else x"
  from assms have s': "s' = s\<lparr>comments := deleteMany (\<lambda>c. comment_recipe c = rid) (comments s),
                              recipes := deleteFirst (\<lambda>x. recipe_id x = rid) (recipes s),
                              users := map ?f (users s)\<rparr>"
    by (auto simp: deleteRecipe_def Let_def split: option.splits if_splits)
  have c1: "\<forall>c \<in> set (comments s'). comment_recipe c \<noteq> rid"
    unfolding s' by (simp add: deleteMany_def)
  have c2: "\<forall>c \<in> set (comments s). comment_recipe c \<noteq> rid \<longrightarrow> c \<in> set (comments s')"
    unfolding s' by (simp add: deleteMany_def)
  have f2: "user_id (?f x) = user_id x" for x by simp
  have u1: "\<forall>x \<in> set (users s'). rid \<notin> set (favoriteRecipes x)"
    unfolding s' by (auto simp: set_pull)
  have u2: "map user_id (users s') = map user_id (users s)"
    unfolding s' using f2 by (simp add: comp_def)
  have u3: "map (\<lambda>x. set (favoriteRecipes x)) (users s') =
           map (\<lambda>x. set (favoriteRecipes x) - {rid}) (users s)"
    unfolding s' by (simp add: comp_def set_pull)
  have r1: "recipes s' = deleteFirst (\<lambda>x. recipe_id x = rid) (recipes s)"
    unfolding s' by simp
  have r2: "distinct (map recipe_id (recipes s)) \<longrightarrow> Recipe_findById s' rid = None"
    unfolding s' by (auto simp: Recipe_findById_def intro!: find_deleteFirst_distinct)
  have n: "notifications s' = notifications s" unfolding s' by simp
  from c1 c2 u1 u2 u3 r1 r2 n show ?thesis by blast
qed

theorem deleteRecipe_cascades_witness:
  "fst (deleteRecipe example_db ''alice'' ''r1'') = Inr ''Recipe deleted successfully'' \<and>
   map comment_recipe (comments example_db) = [''r1'', ''r1'', ''r2''] \<and>
   map favoriteRecipes (users example_db) = [[], [''r1'', ''r2''], [''r1'']] \<and>
   comments (snd (deleteRecipe example_db ''alice'' ''r1'')) = [other_comment] \<and>
   map favoriteRecipes (users (snd (deleteRecipe example_db ''alice'' ''r1''))) =
     [[], [''r2''], []] \<and>
   map recipe_id (recipes (snd (deleteRecipe example_db ''alice'' ''r1''))) = [''r2''] \<and>
   distinct (map recipe_id (recipes example_db))"
proof -
  have h: "deleteRecipe example_db ''alice'' ''r1'' =
     (Inr ''Recipe deleted successfully'', snd (deleteRecipe example_db ''alice'' ''r1''))"
    by (simp add: deleteRecipe_def Recipe_findById_def example_db_def rated_recipe_def Let_def)
  note t = deleteRecipe_cascades [OF h]
  have e0: "fst (deleteRecipe example_db ''alice'' ''r1'') = Inr ''Recipe deleted successfully''"
    using h by (metis fst_conv)
  have e1: "map comment_recipe (comments example_db) = [''r1'', ''r1'', ''r2'']"
    by (simp add: example_db_def root_comment_def reply_comment_def other_comment_def)
  have e2: "map favoriteRecipes (users example_db) = [[], [''r1'', ''r2''], [''r1'']]"
    by (simp add: example_db_def)
  have e3: "comments (snd (deleteRecipe example_db ''alice'' ''r1'')) = [other_comment]"
    by code_simp
  have e4: "map favoriteRecipes (users (snd (deleteRecipe example_db ''alice'' ''r1''))) =
     [[], [''r2''], []]"
    by code_simp
  have e5: "map recipe_id (recipes (snd (deleteRecipe example_db ''alice'' ''r1''))) = [''r2'']"
    by code_simp
  have e6: "distinct (map recipe_id (recipes example_db))"
    by (simp add: example_db_def rated_recipe_def private_recipe_def)
  from t e0 e1 e2 e3 e4 e5 e6 show ?thesis by blast
qed

end
